theory Spec2Isabelle
  imports Main "HOL-Library.AList"
begin

section \<open>Python values, exceptions and the standard-library functions the tools call\<close>

text \<open>
  The tools of \<^verbatim>\<open>mcp_server.py\<close> receive duck-typed objects from the Label Studio
  client library and probe them with \<^verbatim>\<open>hasattr\<close>, \<^verbatim>\<open>getattr\<close> and \<^verbatim>\<open>isinstance\<close>.
  A Python exception is modelled by its class name (\<^verbatim>\<open>type(e).__name__\<close>), the names of
  its base classes, and its message (\<^verbatim>\<open>str(e)\<close>). A clause \<^verbatim>\<open>except C\<close> catches the
  instances of \<^verbatim>\<open>C\<close>; \<^verbatim>\<open>KeyboardInterrupt\<close>, \<^verbatim>\<open>SystemExit\<close> and the like derive from
  \<^verbatim>\<open>BaseException\<close> only, so \<^verbatim>\<open>except Exception\<close> lets them pass.
\<close>

record exn =
  exn_name :: string
  exn_bases :: "string list"
  exn_str :: string

definition isinstance_exn :: "exn \<Rightarrow> string \<Rightarrow> bool" where
  "isinstance_exn e cls = (cls = exn_name e \<or> cls \<in> set (exn_bases e))"

definition AttributeError :: "string \<Rightarrow> exn" where
  "AttributeError msg = \<lparr>exn_name = ''AttributeError'', exn_bases = [''Exception''], exn_str = msg\<rparr>"

definition TypeError :: "string \<Rightarrow> exn" where
  "TypeError msg = \<lparr>exn_name = ''TypeError'', exn_bases = [''Exception''], exn_str = msg\<rparr>"

definition ValueError :: "string \<Rightarrow> exn" where
  "ValueError msg = \<lparr>exn_name = ''ValueError'', exn_bases = [''Exception''], exn_str = msg\<rparr>"

text \<open>
  A float is carried as what \<^verbatim>\<open>float.__repr__\<close> prints (the program never computes with
  one): the characters of a decimal literal, at least one, or one of the three special
  values.
\<close>

datatype fchar = F0 | F1 | F2 | F3 | F4 | F5 | F6 | F7 | F8 | F9 | FDot | FExp | FPlus | FMinus

datatype pyfloat = Finite fchar "fchar list" | NaN | PosInf | NegInf

fun fchar_char :: "fchar \<Rightarrow> char" where
  "fchar_char F0 = CHR ''0''"
| "fchar_char F1 = CHR ''1''"
| "fchar_char F2 = CHR ''2''"
| "fchar_char F3 = CHR ''3''"
| "fchar_char F4 = CHR ''4''"
| "fchar_char F5 = CHR ''5''"
| "fchar_char F6 = CHR ''6''"
| "fchar_char F7 = CHR ''7''"
| "fchar_char F8 = CHR ''8''"
| "fchar_char F9 = CHR ''9''"
| "fchar_char FDot = CHR ''.''"
| "fchar_char FExp = CHR ''e''"
| "fchar_char FPlus = CHR ''+''"
| "fchar_char FMinus = CHR ''-''"

fun float_repr :: "pyfloat \<Rightarrow> string" where
  "float_repr (Finite c cs) = map fchar_char (c # cs)"
| "float_repr NaN = ''nan''"
| "float_repr PosInf = ''inf''"
| "float_repr NegInf = ''-inf''"

text \<open>
  Values. A datetime is carried as the text its \<^verbatim>\<open>isoformat()\<close> returns, a dict as an
  association list in insertion order with string keys. An object of the client library
  has a class name, data attributes, and optionally the accessors the tools probe for:
  \<^verbatim>\<open>model_dump\<close> and \<^verbatim>\<open>dict\<close> (the mapping each returns when called without arguments),
  \<^verbatim>\<open>get_annotations\<close> (what the call returns or raises), and the text of \<^verbatim>\<open>str(obj)\<close>.
\<close>

datatype pyval =
    PNone
  | PBool bool
  | PInt int
  | PFloat pyfloat
  | PStr string
  | PDatetime string
  | PList "pyval list"
  | PDict "(string \<times> pyval) list"
  | PObj string "(string \<times> pyval) list" "(string \<times> pyval) list option"
         "(string \<times> pyval) list option" "(exn + pyval list) option" string

abbreviation SQ :: string where
  "SQ \<equiv> [CHR 0x27]"

abbreviation DQ :: string where
  "DQ \<equiv> [CHR 0x22]"

abbreviation BSL :: char where
  "BSL \<equiv> CHR 0x5C"

fun type_name :: "pyval \<Rightarrow> string" where
  "type_name PNone = ''NoneType''"
| "type_name (PBool b) = ''bool''"
| "type_name (PInt i) = ''int''"
| "type_name (PFloat r) = ''float''"
| "type_name (PStr s) = ''str''"
| "type_name (PDatetime d) = ''datetime''"
| "type_name (PList xs) = ''list''"
| "type_name (PDict kvs) = ''dict''"
| "type_name (PObj cls attrs md dd ga s) = cls"

text \<open>The type's name as an \<^verbatim>\<open>AttributeError\<close> of the interpreter prints it.\<close>

fun tp_name :: "pyval \<Rightarrow> string" where
  "tp_name (PDatetime d) = ''datetime.datetime''"
| "tp_name v = type_name v"

text \<open>\<^verbatim>\<open>bool(v)\<close>, as the conditional expression \<^verbatim>\<open>x if v else y\<close> reads it.\<close>

fun truthy :: "pyval \<Rightarrow> bool" where
  "truthy PNone = False"
| "truthy (PBool b) = b"
| "truthy (PInt i) = (i \<noteq> 0)"
| "truthy (PFloat r) = (float_repr r \<noteq> ''0.0'' \<and> float_repr r \<noteq> ''-0.0'')"
| "truthy (PStr s) = (s \<noteq> [])"
| "truthy (PDatetime d) = True"
| "truthy (PList xs) = (xs \<noteq> [])"
| "truthy (PDict kvs) = (kvs \<noteq> [])"
| "truthy (PObj cls attrs md dd ga s) = True"

text \<open>
  Attribute access. \<open>py_getattr v name\<close> is \<open>None\<close> exactly when \<^verbatim>\<open>hasattr(v, name)\<close> is
  false for a data attribute; \<open>attr\<close> is the plain access \<^verbatim>\<open>v.name\<close>, which raises
  \<^verbatim>\<open>AttributeError\<close>; \<open>getattr3\<close> is \<^verbatim>\<open>getattr(v, name, default)\<close>.
\<close>

fun py_getattr :: "pyval \<Rightarrow> string \<Rightarrow> pyval option" where
  "py_getattr (PObj cls attrs md dd ga s) name = map_of attrs name"
| "py_getattr v name = None"

definition hasattr :: "pyval \<Rightarrow> string \<Rightarrow> bool" where
  "hasattr v name = (py_getattr v name \<noteq> None)"

definition no_attribute :: "pyval \<Rightarrow> string \<Rightarrow> exn" where
  "no_attribute v name =
     AttributeError (SQ @ tp_name v @ SQ @ '' object has no attribute '' @ SQ @ name @ SQ)"

definition attr :: "pyval \<Rightarrow> string \<Rightarrow> exn + pyval" where
  "attr v name = (case py_getattr v name of None \<Rightarrow> Inl (no_attribute v name) | Some x \<Rightarrow> Inr x)"

definition getattr3 :: "pyval \<Rightarrow> string \<Rightarrow> pyval \<Rightarrow> pyval" where
  "getattr3 v name dflt = (case py_getattr v name of None \<Rightarrow> dflt | Some x \<Rightarrow> x)"

text \<open>
  The accessors: \<open>model_dump_of v\<close> is \<open>None\<close> when \<^verbatim>\<open>hasattr(v, 'model_dump')\<close> is false,
  and otherwise holds what \<^verbatim>\<open>v.model_dump()\<close> returns; likewise for \<^verbatim>\<open>dict\<close> and
  \<^verbatim>\<open>get_annotations\<close>. \<^verbatim>\<open>model_dump(exclude=names)\<close> leaves the named fields out.
  Only a datetime has \<^verbatim>\<open>isoformat\<close>.
\<close>

fun model_dump_of :: "pyval \<Rightarrow> (string \<times> pyval) list option" where
  "model_dump_of (PObj cls attrs md dd ga s) = md"
| "model_dump_of v = None"

fun dict_of :: "pyval \<Rightarrow> (string \<times> pyval) list option" where
  "dict_of (PObj cls attrs md dd ga s) = dd"
| "dict_of v = None"

fun get_annotations_of :: "pyval \<Rightarrow> (exn + pyval list) option" where
  "get_annotations_of (PObj cls attrs md dd ga s) = ga"
| "get_annotations_of v = None"

definition model_dump_exclude :: "string list \<Rightarrow> (string \<times> pyval) list \<Rightarrow> (string \<times> pyval) list" where
  "model_dump_exclude names dump = filter (\<lambda>(k, v). k \<notin> set names) dump"

fun isoformat_of :: "pyval \<Rightarrow> string option" where
  "isoformat_of (PDatetime d) = Some d"
| "isoformat_of v = None"

fun is_dict :: "pyval \<Rightarrow> bool" where
  "is_dict (PDict kvs) = True"
| "is_dict v = False"

fun is_list :: "pyval \<Rightarrow> bool" where
  "is_list (PList xs) = True"
| "is_list v = False"

subsection \<open>Text of numbers and \<^verbatim>\<open>str()\<close>\<close>

definition digit_char :: "nat \<Rightarrow> char" where
  "digit_char n = char_of (48 + n)"

function show_nat :: "nat \<Rightarrow> string" where
  "show_nat n = (if n < 10 then [digit_char n] else show_nat (n div 10) @ [digit_char (n mod 10)])"
  by pat_completeness auto
termination
  by (relation "measure id") auto

declare show_nat.simps [simp del]

definition show_int :: "int \<Rightarrow> string" where
  "show_int i = (if i < 0 then CHR ''-'' # show_nat (nat (- i)) else show_nat (nat i))"

text \<open>
  \<^verbatim>\<open>str(v)\<close>, which an f-string applies to each field. What \<^verbatim>\<open>str\<close> prints for a
  container or a datetime is taken as a parameter.
\<close>

fun py_str :: "(pyval \<Rightarrow> string) \<Rightarrow> pyval \<Rightarrow> string" where
  "py_str other PNone = ''None''"
| "py_str other (PBool b) = (if b then ''True'' else ''False'')"
| "py_str other (PInt i) = show_int i"
| "py_str other (PFloat r) = float_repr r"
| "py_str other (PStr s) = s"
| "py_str other (PObj cls attrs md dd ga s) = s"
| "py_str other v = other v"

subsection \<open>\<^verbatim>\<open>json.dumps\<close>\<close>

text \<open>
  \<^verbatim>\<open>json.dumps\<close> with its defaults: items separated by a comma and a space, keys from
  values by a colon and a space, every character outside the printable ASCII range
  escaped (a \<open>char\<close> stands for a code point below 256), and \<^verbatim>\<open>TypeError\<close> raised at the
  first value that is none of \<^verbatim>\<open>None\<close>, bool, int, float, str, list, dict.
\<close>

definition hex_digit :: "nat \<Rightarrow> char" where
  "hex_digit n = (if n < 10 then char_of (48 + n) else char_of (87 + n))"

definition json_escape_char :: "char \<Rightarrow> string" where
  "json_escape_char c =
     (if c = CHR 0x22 then [BSL, CHR 0x22]
      else if c = BSL then [BSL, BSL]
      else if c = CHR 0x08 then [BSL, CHR ''b'']
      else if c = CHR 0x0C then [BSL, CHR ''f'']
      else if c = CHR 0x0A then [BSL, CHR ''n'']
      else if c = CHR 0x0D then [BSL, CHR ''r'']
      else if c = CHR 0x09 then [BSL, CHR ''t'']
      else if 32 \<le> (of_char c :: nat) \<and> (of_char c :: nat) \<le> 126 then [c]
      else [BSL, CHR ''u'', CHR ''0'', CHR ''0'',
            hex_digit ((of_char c :: nat) div 16), hex_digit ((of_char c :: nat) mod 16)])"

definition json_string :: "string \<Rightarrow> string" where
  "json_string s = DQ @ concat (map json_escape_char s) @ DQ"

fun json_float :: "pyfloat \<Rightarrow> string" where
  "json_float (Finite c cs) = map fchar_char (c # cs)"
| "json_float NaN = ''NaN''"
| "json_float PosInf = ''Infinity''"
| "json_float NegInf = ''-Infinity''"

fun join_with :: "string \<Rightarrow> string list \<Rightarrow> string" where
  "join_with sep [] = []"
| "join_with sep [s] = s"
| "join_with sep (s # t # ss) = s @ sep @ join_with sep (t # ss)"

primrec seq_results :: "('e + 'a) list \<Rightarrow> 'e + 'a list" where
  "seq_results [] = Inr []"
| "seq_results (r # rs) =
     (case r of
        Inl e \<Rightarrow> Inl e
      | Inr x \<Rightarrow> (case seq_results rs of Inl e \<Rightarrow> Inl e | Inr xs \<Rightarrow> Inr (x # xs)))"

definition json_array :: "(exn + string) list \<Rightarrow> exn + string" where
  "json_array items =
     (case seq_results items of
        Inl e \<Rightarrow> Inl e
      | Inr ss \<Rightarrow> Inr (''['' @ join_with '', '' ss @ '']''))"

definition json_object :: "(string \<times> (exn + string)) list \<Rightarrow> exn + string" where
  "json_object items =
     (case seq_results (map (\<lambda>(k, r). case r of Inl e \<Rightarrow> Inl e
                                          | Inr s \<Rightarrow> Inr (json_string k @ '': '' @ s)) items) of
        Inl e \<Rightarrow> Inl e
      | Inr ss \<Rightarrow> Inr (''{'' @ join_with '', '' ss @ ''}''))"

definition not_serializable :: "string \<Rightarrow> exn" where
  "not_serializable cls = TypeError (''Object of type '' @ cls @ '' is not JSON serializable'')"

primrec json_dumps :: "pyval \<Rightarrow> exn + string" where
  "json_dumps PNone = Inr ''null''"
| "json_dumps (PBool b) = Inr (if b then ''true'' else ''false'')"
| "json_dumps (PInt i) = Inr (show_int i)"
| "json_dumps (PFloat r) = Inr (json_float r)"
| "json_dumps (PStr s) = Inr (json_string s)"
| "json_dumps (PDatetime d) = Inl (not_serializable ''datetime'')"
| "json_dumps (PList xs) = json_array (map json_dumps xs)"
| "json_dumps (PDict kvs) = json_object (map (map_prod id json_dumps) kvs)"
| "json_dumps (PObj cls attrs md dd ga s) = Inl (not_serializable cls)"

text \<open>\<^verbatim>\<open>return json.dumps(v)\<close>: the tool's result is the text, as a Python string.\<close>

definition return_json :: "pyval \<Rightarrow> exn + pyval" where
  "return_json v = (case json_dumps v of Inl e \<Rightarrow> Inl e | Inr s \<Rightarrow> Inr (PStr s))"

text \<open>The values \<^verbatim>\<open>json.dumps\<close> accepts.\<close>

primrec json_serializable :: "pyval \<Rightarrow> bool" where
  "json_serializable PNone = True"
| "json_serializable (PBool b) = True"
| "json_serializable (PInt i) = True"
| "json_serializable (PFloat r) = True"
| "json_serializable (PStr s) = True"
| "json_serializable (PDatetime d) = False"
| "json_serializable (PList xs) = list_all id (map json_serializable xs)"
| "json_serializable (PDict kvs) = list_all snd (map (map_prod id json_serializable) kvs)"
| "json_serializable (PObj cls attrs md dd ga s) = False"

text \<open>
  Reading a JSON text back: a scan that tracks the nesting depth and whether it is inside
  a string literal, and counts the commas at depth 1. For the text of an array these
  separate its elements, so \<open>json_array_length\<close> is the number of elements of the array.
  The characters the scan reacts to outside a string literal are the \<open>structural\<close> ones.
\<close>

datatype scan_mode = Outside | InString | Escaped

fun scan_step :: "nat \<times> scan_mode \<times> nat \<Rightarrow> char \<Rightarrow> nat \<times> scan_mode \<times> nat" where
  "scan_step (d, Outside, n) c =
     (if c = CHR 0x22 then (d, InString, n)
      else if c = CHR ''['' \<or> c = CHR ''{'' then (d + 1, Outside, n)
      else if c = CHR '']'' \<or> c = CHR ''}'' then (d - 1, Outside, n)
      else if c = CHR '','' \<and> d = 1 then (d, Outside, n + 1)
      else (d, Outside, n))"
| "scan_step (d, InString, n) c =
     (if c = BSL then (d, Escaped, n)
      else if c = CHR 0x22 then (d, Outside, n)
      else (d, InString, n))"
| "scan_step (d, Escaped, n) c = (d, InString, n)"

definition structural :: "char \<Rightarrow> bool" where
  "structural c =
     (c = CHR 0x22 \<or> c = CHR ''['' \<or> c = CHR ''{'' \<or> c = CHR '']'' \<or> c = CHR ''}'' \<or>
      c = CHR '','')"

definition json_array_length :: "string \<Rightarrow> nat" where
  "json_array_length s =
     (if s = ''[]'' then 0
      else (case foldl scan_step (0, Outside, 0) s of (d, m, n) \<Rightarrow> n + 1))"

text \<open>The serializer of lines 41-47, for a datetime met by a raw JSON encode.\<close>

definition json_datetime_serializer :: "pyval \<Rightarrow> exn + pyval" where
  "json_datetime_serializer obj =
     (case obj of
        PDatetime d \<Rightarrow> Inr (PStr d)
      | _ \<Rightarrow> Inl (not_serializable (type_name obj)))"

section \<open>The environment, the client and the effects of a tool\<close>

text \<open>
  What the process reads from outside: the base URL (\<^verbatim>\<open>LABEL_STUDIO_URL\<close> of
  \<^verbatim>\<open>mcp_env.py\<close>), the local file system (\<^verbatim>\<open>open\<close> gives the file's text or raises),
  \<^verbatim>\<open>json.load\<close> on a file's text, \<^verbatim>\<open>str\<close> of a container or a datetime, and
  \<^verbatim>\<open>traceback.format_exc()\<close>.
\<close>

record env =
  LABEL_STUDIO_URL :: string
  open_file :: "string \<Rightarrow> exn + string"
  json_load :: "string \<Rightarrow> exn + pyval"
  str_other :: "pyval \<Rightarrow> string"
  format_exc :: "exn \<Rightarrow> string"

text \<open>
  The client \<^verbatim>\<open>ls\<close>: the remote operations the tools call, each returning a value or
  raising. A pager is the list of the entries it yields, in order.
\<close>

record client =
  ls_projects_list :: "exn + pyval list"
  ls_projects_get :: "int \<Rightarrow> exn + pyval"
  ls_projects_create :: "(string \<times> pyval) list \<Rightarrow> exn + pyval"
  ls_projects_update :: "int \<Rightarrow> string \<Rightarrow> exn + pyval"
  ls_projects_import_tasks :: "int \<Rightarrow> pyval \<Rightarrow> exn + pyval"
  ls_tasks_list :: "int \<Rightarrow> exn + pyval list"
  ls_tasks_get :: "int \<Rightarrow> exn + pyval"
  ls_predictions_create :: "(string \<times> pyval) list \<Rightarrow> exn + pyval"

text \<open>
  \<^verbatim>\<open>mcp_env.py\<close>: the URL defaults to the local server; the handle stays \<^verbatim>\<open>None\<close> when the
  API key is unset or empty, or when the constructor raises.
\<close>

definition env_LABEL_STUDIO_URL :: "string option \<Rightarrow> string" where
  "env_LABEL_STUDIO_URL var = (case var of None \<Rightarrow> ''http://localhost:8080'' | Some url \<Rightarrow> url)"

definition env_ls :: "string \<Rightarrow> string option \<Rightarrow> (string \<Rightarrow> string \<Rightarrow> exn + client) \<Rightarrow> client option" where
  "env_ls url api_key LabelStudio =
     (case api_key of
        None \<Rightarrow> None
      | Some key \<Rightarrow>
          if key = [] then None
          else (case LabelStudio url key of Inl e \<Rightarrow> None | Inr c \<Rightarrow> Some c))"

text \<open>
  What a tool does besides returning: the remote calls it issues (with their arguments)
  and the files it opens, in order.
\<close>

datatype event =
    CallProjectsList
  | CallProjectsGet int
  | CallProjectsCreate "(string \<times> pyval) list"
  | CallProjectsUpdate int string
  | CallProjectsImportTasks int pyval
  | CallTasksList int
  | CallTasksGet int
  | CallGetAnnotations
  | CallPredictionsCreate "(string \<times> pyval) list"
  | FileOpen string

type_synonym 'a io = "event list \<times> (exn + 'a)"

definition io_pure :: "exn + 'a \<Rightarrow> 'a io" where
  "io_pure r = ([], r)"

definition io_do :: "event \<Rightarrow> exn + 'a \<Rightarrow> 'a io" where
  "io_do ev r = ([ev], r)"

definition io_bind :: "'a io \<Rightarrow> ('a \<Rightarrow> 'b io) \<Rightarrow> 'b io" where
  "io_bind m f =
     (case m of
        (evs, Inl e) \<Rightarrow> (evs, Inl e)
      | (evs, Inr x) \<Rightarrow> (case f x of (evs', r) \<Rightarrow> (evs @ evs', r)))"

text \<open>
  \<^verbatim>\<open>try: m except Exception as e: return h(e)\<close>: an exception that is no instance of
  \<^verbatim>\<open>Exception\<close> is not caught.
\<close>

definition io_except :: "'a io \<Rightarrow> (exn \<Rightarrow> 'a) \<Rightarrow> 'a io" where
  "io_except m h =
     (case m of
        (evs, Inl e) \<Rightarrow>
          if isinstance_exn e ''Exception'' then (evs, Inr (h e)) else (evs, Inl e)
      | (evs, Inr x) \<Rightarrow> (evs, Inr x))"

definition ebind :: "'e + 'a \<Rightarrow> ('a \<Rightarrow> 'e + 'b) \<Rightarrow> 'e + 'b" where
  "ebind r f = (case r of Inl e \<Rightarrow> Inl e | Inr x \<Rightarrow> f x)"

section \<open>The connection guard\<close>

text \<open>
  \<^verbatim>\<open>require_ls_connection\<close> (lines 19-38). The wrapped function reads the global \<^verbatim>\<open>ls\<close>;
  here the guard hands it the client. With no client the function is not applied. The
  wrapper returns a value, or raises what \<^verbatim>\<open>except Exception\<close> does not catch.
\<close>

definition client_not_available :: string where
  "client_not_available =
     ''Error: Label Studio client not available. '' @
     ''Please check server logs for initialization errors '' @
     ''(e.g., missing 'LABEL_STUDIO_API_KEY', invalid key, or connection issue with 'LABEL_STUDIO_URL').''"

definition error_in_function :: "string \<Rightarrow> exn \<Rightarrow> string" where
  "error_in_function func_name e =
     ''Error in function '' @ SQ @ func_name @ SQ @ '': ['' @ exn_name e @ ''] '' @ exn_str e"

definition require_ls_connection ::
  "string \<Rightarrow> (client \<Rightarrow> pyval io) \<Rightarrow> client option \<Rightarrow> pyval io" where
  "require_ls_connection func_name func ls =
     (case ls of
        None \<Rightarrow> ([], Inr (PStr client_not_available))
      | Some c \<Rightarrow>
          (case func c of
             (evs, Inr v) \<Rightarrow> (evs, Inr v)
           | (evs, Inl e) \<Rightarrow>
               if isinstance_exn e ''Exception''
               then (evs, Inr (PStr (error_in_function func_name e)))
               else (evs, Inl e)))"

section \<open>The tools\<close>

subsection \<open>\<^verbatim>\<open>get_label_studio_projects_tool\<close> (lines 55-73)\<close>

definition project_data :: "pyval \<Rightarrow> exn + pyval" where
  "project_data project =
     ebind (attr project ''id'') (\<lambda>project_id.
       Inr (PDict [(''id'', project_id),
                   (''title'', getattr3 project ''title'' (PStr ''N/A'')),
                   (''task_count'', getattr3 project ''task_number'' (PInt 0))]))"

fun projects_loop :: "pyval list \<Rightarrow> nat \<Rightarrow> pyval list \<Rightarrow> exn + pyval list" where
  "projects_loop [] projects_processed projects_summary = Inr projects_summary"
| "projects_loop (project # pager) projects_processed projects_summary =
     (if projects_processed \<ge> 100 then Inr projects_summary
      else (case project_data project of
              Inl e \<Rightarrow> Inl e
            | Inr d \<Rightarrow> projects_loop pager (projects_processed + 1) (projects_summary @ [d])))"

definition get_label_studio_projects_tool :: "client \<Rightarrow> pyval io" where
  "get_label_studio_projects_tool ls =
     io_bind (io_do CallProjectsList (ls_projects_list ls)) (\<lambda>projects_pager.
       io_pure (ebind (projects_loop projects_pager 0 []) (\<lambda>projects_summary.
         return_json (PList projects_summary))))"

subsection \<open>\<^verbatim>\<open>get_label_studio_project_details_tool\<close> (lines 77-92)\<close>

text \<open>\<^verbatim>\<open>project.created_at.isoformat() if project.created_at else None\<close>.\<close>

definition created_at_isoformat :: "pyval \<Rightarrow> exn + pyval" where
  "created_at_isoformat project =
     ebind (attr project ''created_at'') (\<lambda>created_at.
       if truthy created_at
       then (case isoformat_of created_at of
               None \<Rightarrow> Inl (no_attribute created_at ''isoformat'')
             | Some stamp \<Rightarrow> Inr (PStr stamp))
       else Inr PNone)"

definition project_details :: "pyval \<Rightarrow> exn + pyval" where
  "project_details project =
     (case model_dump_of project of
        Some dump \<Rightarrow>
          ebind (created_at_isoformat project) (\<lambda>created_at.
            Inr (PDict (AList.update ''created_at'' created_at
                          (model_dump_exclude [''created_at'', ''updated_at''] dump))))
      | None \<Rightarrow>
          (case dict_of project of
             Some project_dict \<Rightarrow>
               ebind (created_at_isoformat project) (\<lambda>created_at.
                 Inr (PDict (AList.delete ''updated_at''
                               (AList.update ''created_at'' created_at project_dict))))
           | None \<Rightarrow>
               ebind (attr project ''id'') (\<lambda>project_id.
                 Inr (PDict [(''id'', project_id),
                             (''title'', getattr3 project ''title'' (PStr ''N/A''))]))))"

definition get_label_studio_project_details_tool :: "client \<Rightarrow> int \<Rightarrow> pyval io" where
  "get_label_studio_project_details_tool ls project_id =
     io_bind (io_do (CallProjectsGet project_id) (ls_projects_get ls project_id)) (\<lambda>project.
       io_pure (ebind (project_details project) return_json))"

subsection \<open>\<^verbatim>\<open>get_label_studio_project_config_tool\<close> (lines 96-99)\<close>

definition get_label_studio_project_config_tool :: "client \<Rightarrow> int \<Rightarrow> pyval io" where
  "get_label_studio_project_config_tool ls project_id =
     io_bind (io_do (CallProjectsGet project_id) (ls_projects_get ls project_id)) (\<lambda>project.
       io_pure (attr project ''label_config''))"

subsection \<open>\<^verbatim>\<open>list_label_studio_project_tasks_tool\<close> (lines 103-125)\<close>

definition task_summary :: "pyval \<Rightarrow> exn + pyval" where
  "task_summary task =
     ebind (attr task ''id'') (\<lambda>task_id.
       Inr (PDict [(''id'', task_id),
                   (''data_keys'',
                      (case py_getattr task ''data'' of
                         Some (PDict kvs) \<Rightarrow> PList (map (\<lambda>(k, v). PStr k) kvs)
                       | _ \<Rightarrow> PList []))]))"

fun tasks_loop :: "pyval list \<Rightarrow> nat \<Rightarrow> pyval list \<Rightarrow> exn + pyval list" where
  "tasks_loop [] tasks_processed task_list_summary = Inr task_list_summary"
| "tasks_loop (task # pager) tasks_processed task_list_summary =
     (if tasks_processed \<ge> 50 then Inr task_list_summary
      else (case task_summary task of
              Inl e \<Rightarrow> Inl e
            | Inr d \<Rightarrow> tasks_loop pager (tasks_processed + 1) (task_list_summary @ [d])))"

definition list_label_studio_project_tasks_tool :: "client \<Rightarrow> int \<Rightarrow> pyval io" where
  "list_label_studio_project_tasks_tool ls project_id =
     io_bind (io_do (CallTasksList project_id) (ls_tasks_list ls project_id)) (\<lambda>tasks_pager.
       io_pure (ebind (tasks_loop tasks_pager 0 []) (\<lambda>task_list_summary.
         return_json (PList task_list_summary))))"

subsection \<open>\<^verbatim>\<open>get_label_studio_task_data_tool\<close> (lines 129-136)\<close>

definition get_label_studio_task_data_tool :: "client \<Rightarrow> int \<Rightarrow> int \<Rightarrow> pyval io" where
  "get_label_studio_task_data_tool ls project_id task_id =
     io_bind (io_do (CallTasksGet task_id) (ls_tasks_get ls task_id)) (\<lambda>task.
       io_pure (case py_getattr task ''data'' of
                  Some data \<Rightarrow> return_json data
                | None \<Rightarrow> return_json (PDict [])))"

subsection \<open>\<^verbatim>\<open>get_label_studio_task_annotations_tool\<close> (lines 140-161)\<close>

definition serialize_annotation :: "env \<Rightarrow> pyval \<Rightarrow> pyval" where
  "serialize_annotation env anno =
     (case model_dump_of anno of
        Some dump \<Rightarrow> PDict dump
      | None \<Rightarrow>
          (case dict_of anno of
             Some d \<Rightarrow> PDict d
           | None \<Rightarrow>
               if is_dict anno then anno
               else PDict [(''details'', PStr (py_str (str_other env) anno))]))"

definition get_label_studio_task_annotations_tool :: "env \<Rightarrow> client \<Rightarrow> int \<Rightarrow> int \<Rightarrow> pyval io" where
  "get_label_studio_task_annotations_tool env ls project_id task_id =
     io_bind (io_do (CallTasksGet task_id) (ls_tasks_get ls task_id)) (\<lambda>task.
       (case get_annotations_of task of
          None \<Rightarrow>
            io_pure (Inl (AttributeError (''Task object (id: '' @ show_int task_id @
                                          '') does not have get_annotations method.'')))
        | Some get_annotations \<Rightarrow>
            io_bind (io_do CallGetAnnotations get_annotations) (\<lambda>annotations.
              io_pure (return_json (PList (map (serialize_annotation env) annotations))))))"

subsection \<open>Arguments with defaults\<close>

text \<open>
  A parameter with a default is either left out of the call or passed; Python binds the
  default to a parameter that was left out. An optional value is \<^verbatim>\<open>None\<close> or a value.
\<close>

datatype 'a arg = Omitted | Passed 'a

fun bind_arg :: "'a \<Rightarrow> 'a arg \<Rightarrow> 'a" where
  "bind_arg dflt Omitted = dflt"
| "bind_arg dflt (Passed v) = v"

definition py_opt_str :: "string option \<Rightarrow> pyval" where
  "py_opt_str v = (case v of None \<Rightarrow> PNone | Some s \<Rightarrow> PStr s)"

definition py_opt_bool :: "bool option \<Rightarrow> pyval" where
  "py_opt_bool v = (case v of None \<Rightarrow> PNone | Some b \<Rightarrow> PBool b)"

definition py_opt_float :: "pyfloat option \<Rightarrow> pyval" where
  "py_opt_float v = (case v of None \<Rightarrow> PNone | Some r \<Rightarrow> PFloat r)"

text \<open>\<^verbatim>\<open>{k: v for k, v in kwargs.items() if v is not None}\<close>.\<close>

definition filter_not_none :: "(string \<times> pyval) list \<Rightarrow> (string \<times> pyval) list" where
  "filter_not_none kwargs = filter (\<lambda>(k, v). v \<noteq> PNone) kwargs"

definition project_url_of :: "env \<Rightarrow> string \<Rightarrow> string" where
  "project_url_of env project_id = LABEL_STUDIO_URL env @ ''/projects/'' @ project_id @ ''/data''"

text \<open>
  The loop body of lines 223-230 and 270-276: an attribute the object has is copied into
  the response, a datetime as its ISO text.
\<close>

definition copy_attr :: "pyval \<Rightarrow> (string \<times> pyval) list \<Rightarrow> string \<Rightarrow> (string \<times> pyval) list" where
  "copy_attr obj response_data a =
     (case py_getattr obj a of
        None \<Rightarrow> response_data
      | Some v \<Rightarrow>
          AList.update a (case isoformat_of v of Some stamp \<Rightarrow> PStr stamp | None \<Rightarrow> v)
            response_data)"

subsection \<open>\<^verbatim>\<open>create_label_studio_project_tool\<close> (lines 165-232)\<close>

definition create_project_kwargs ::
  "string \<Rightarrow> string \<Rightarrow> string option arg \<Rightarrow> string option arg \<Rightarrow> bool option arg \<Rightarrow>
   bool option arg \<Rightarrow> bool option arg \<Rightarrow> bool option arg \<Rightarrow> string option arg \<Rightarrow>
   (string \<times> pyval) list" where
  "create_project_kwargs title label_config description expert_instruction show_instruction
     show_skip_button enable_empty_annotation show_annotation_history color =
     [(''title'', PStr title),
      (''label_config'', PStr label_config),
      (''description'', py_opt_str (bind_arg None description)),
      (''expert_instruction'', py_opt_str (bind_arg None expert_instruction)),
      (''show_instruction'', py_opt_bool (bind_arg (Some False) show_instruction)),
      (''show_skip_button'', py_opt_bool (bind_arg (Some True) show_skip_button)),
      (''enable_empty_annotation'', py_opt_bool (bind_arg (Some True) enable_empty_annotation)),
      (''show_annotation_history'', py_opt_bool (bind_arg (Some False) show_annotation_history)),
      (''color'', py_opt_str (bind_arg None color))]"

definition create_project_response :: "env \<Rightarrow> pyval \<Rightarrow> exn + pyval" where
  "create_project_response env project =
     ebind (attr project ''id'') (\<lambda>project_id.
       ebind (attr project ''title'') (\<lambda>title.
         return_json (PDict (foldl (copy_attr project)
           [(''id'', project_id),
            (''title'', title),
            (''project_url'', PStr (project_url_of env (py_str (str_other env) project_id)))]
           [''description'', ''color'', ''expert_instruction'', ''created_at'', ''label_config'']))))"

definition create_label_studio_project_tool ::
  "env \<Rightarrow> client \<Rightarrow> string \<Rightarrow> string \<Rightarrow> string option arg \<Rightarrow> string option arg \<Rightarrow>
   bool option arg \<Rightarrow> bool option arg \<Rightarrow> bool option arg \<Rightarrow> bool option arg \<Rightarrow>
   string option arg \<Rightarrow> pyval io" where
  "create_label_studio_project_tool env ls title label_config description expert_instruction
     show_instruction show_skip_button enable_empty_annotation show_annotation_history color =
     (let filtered_kwargs =
            filter_not_none
              (create_project_kwargs title label_config description expert_instruction
                 show_instruction show_skip_button enable_empty_annotation
                 show_annotation_history color)
      in io_bind (io_do (CallProjectsCreate filtered_kwargs) (ls_projects_create ls filtered_kwargs))
           (\<lambda>project. io_pure (create_project_response env project)))"

subsection \<open>\<^verbatim>\<open>update_label_studio_project_config_tool\<close> (lines 236-283)\<close>

definition update_project_response :: "env \<Rightarrow> pyval \<Rightarrow> string \<Rightarrow> exn + pyval" where
  "update_project_response env updated_project new_label_config =
     ebind (attr updated_project ''id'') (\<lambda>project_id.
       return_json (PDict (foldl (copy_attr updated_project)
         [(''id'', project_id),
          (''title'', getattr3 updated_project ''title'' (PStr ''N/A'')),
          (''label_config'', getattr3 updated_project ''label_config'' (PStr new_label_config)),
          (''project_url'', PStr (project_url_of env (py_str (str_other env) project_id))),
          (''message'', PStr ''Project configuration updated successfully.'')]
         [''description'', ''color'', ''expert_instruction'', ''created_at''])))"

definition update_project_error :: "env \<Rightarrow> exn \<Rightarrow> pyval" where
  "update_project_error env e =
     PStr (''Error during Label Studio project config update API call: '' @ exn_name e @
           '' - '' @ exn_str e @ [CHR 0x0A] @ format_exc env e)"

definition update_label_studio_project_config_tool ::
  "env \<Rightarrow> client \<Rightarrow> int \<Rightarrow> string \<Rightarrow> pyval io" where
  "update_label_studio_project_config_tool env ls project_id new_label_config =
     io_except
       (io_bind (io_do (CallProjectsUpdate project_id new_label_config)
                   (ls_projects_update ls project_id new_label_config))
          (\<lambda>updated_project.
             io_pure (update_project_response env updated_project new_label_config)))
       (update_project_error env)"

subsection \<open>\<^verbatim>\<open>import_label_studio_project_tasks_tool\<close> (lines 287-364)\<close>

text \<open>The \<^verbatim>\<open>try\<close> block of lines 312-318: open the file, parse it, insist on a list.\<close>

definition read_tasks_file :: "env \<Rightarrow> string \<Rightarrow> pyval io" where
  "read_tasks_file env tasks_file_path =
     io_bind (io_do (FileOpen tasks_file_path) (open_file env tasks_file_path)) (\<lambda>f.
       io_pure (ebind (json_load env f) (\<lambda>tasks_list.
         if is_list tasks_list then Inr tasks_list
         else Inl (ValueError (''JSON file '' @ SQ @ tasks_file_path @ SQ @
                               '' must contain a valid JSON array (list).'')))))"

text \<open>
  The \<^verbatim>\<open>except\<close> clauses of lines 322-332, tried in order: the string the matching clause
  returns, or the exception again when no clause matches.
\<close>

definition tasks_file_error :: "env \<Rightarrow> string \<Rightarrow> exn \<Rightarrow> exn + pyval" where
  "tasks_file_error env tasks_file_path e =
     (if isinstance_exn e ''FileNotFoundError''
      then Inr (PStr (''Error: Tasks file not found at path: '' @ tasks_file_path))
      else if isinstance_exn e ''PermissionError''
      then Inr (PStr (''Error: Permission denied when trying to read file: '' @ tasks_file_path))
      else if isinstance_exn e ''JSONDecodeError''
      then Inr (PStr (''Error: Invalid JSON format in file '' @ SQ @ tasks_file_path @ SQ @
                      '' - '' @ exn_str e))
      else if isinstance_exn e ''ValueError''
      then Inr (PStr (''Error processing tasks file: '' @ exn_str e))
      else if isinstance_exn e ''Exception''
      then Inr (PStr (''Unexpected error reading/processing tasks file '' @ SQ @
                      tasks_file_path @ SQ @ '': '' @ exn_name e @ '' - '' @ exn_str e @
                      [CHR 0x0A] @ format_exc env e))
      else Inl e)"

definition import_tasks_error :: "env \<Rightarrow> exn \<Rightarrow> pyval" where
  "import_tasks_error env e =
     PStr (''Error during Label Studio task import API call: '' @ exn_name e @
           '' - '' @ exn_str e @ [CHR 0x0A] @ format_exc env e)"

definition import_final_response :: "env \<Rightarrow> pyval \<Rightarrow> (string \<times> pyval) list" where
  "import_final_response env import_result =
     (case import_result of
        PDict d \<Rightarrow> d
      | _ \<Rightarrow>
          (case model_dump_of import_result of
             Some dump \<Rightarrow> dump
           | None \<Rightarrow>
               (case dict_of import_result of
                  Some d \<Rightarrow> d
                | None \<Rightarrow>
                    [(''message'', PStr ''Import initiated''),
                     (''details'', PStr (py_str (str_other env) import_result))])))"

definition import_label_studio_project_tasks_tool ::
  "env \<Rightarrow> client \<Rightarrow> int \<Rightarrow> string \<Rightarrow> pyval io" where
  "import_label_studio_project_tasks_tool env ls project_id tasks_file_path =
     (case read_tasks_file env tasks_file_path of
        (evs, Inl e) \<Rightarrow> (evs, tasks_file_error env tasks_file_path e)
      | (evs, Inr tasks_list) \<Rightarrow>
          (let project_url = project_url_of env (show_int project_id) in
           (case ls_projects_import_tasks ls project_id tasks_list of
              Inl e \<Rightarrow>
                (evs @ [CallProjectsImportTasks project_id tasks_list],
                 if isinstance_exn e ''Exception'' then Inr (import_tasks_error env e)
                 else Inl e)
            | Inr import_result \<Rightarrow>
                (evs @ [CallProjectsImportTasks project_id tasks_list],
                 return_json (PDict (AList.update ''project_url'' (PStr project_url)
                                       (import_final_response env import_result)))))))"

subsection \<open>\<^verbatim>\<open>create_label_studio_prediction_tool\<close> (lines 368-426)\<close>

definition prediction_kwargs ::
  "int \<Rightarrow> pyval list \<Rightarrow> string option arg \<Rightarrow> pyfloat option arg \<Rightarrow> (string \<times> pyval) list" where
  "prediction_kwargs task_id result model_version score =
     [(''task'', PInt task_id),
      (''result'', PList result),
      (''model_version'', py_opt_str (bind_arg None model_version)),
      (''score'', py_opt_float (bind_arg None score))]"

text \<open>
  The loop body of lines 411-418: a datetime as its ISO text, a value of a basic type as
  it is, any other value skipped.
\<close>

definition copy_prediction_attr ::
  "pyval \<Rightarrow> (string \<times> pyval) list \<Rightarrow> string \<Rightarrow> (string \<times> pyval) list" where
  "copy_prediction_attr created_prediction response_data attr_name =
     (case py_getattr created_prediction attr_name of
        None \<Rightarrow> response_data
      | Some v \<Rightarrow>
          (case v of
             PDatetime d \<Rightarrow> AList.update attr_name (PStr d) response_data
           | PObj cls attrs md dd ga s \<Rightarrow> response_data
           | _ \<Rightarrow> AList.update attr_name v response_data))"

definition prediction_error :: "env \<Rightarrow> exn \<Rightarrow> pyval" where
  "prediction_error env e =
     PStr (''Error during Label Studio prediction create/serialize: '' @ exn_name e @
           '' - '' @ exn_str e @ [CHR 0x0A] @ format_exc env e)"

definition create_label_studio_prediction_tool ::
  "env \<Rightarrow> client \<Rightarrow> int \<Rightarrow> pyval list \<Rightarrow> string option arg \<Rightarrow> pyfloat option arg \<Rightarrow> pyval io" where
  "create_label_studio_prediction_tool env ls task_id result model_version score =
     (let filtered_sdk_kwargs = filter_not_none (prediction_kwargs task_id result model_version score)
      in io_except
           (io_bind (io_do (CallPredictionsCreate filtered_sdk_kwargs)
                       (ls_predictions_create ls filtered_sdk_kwargs))
              (\<lambda>created_prediction.
                 io_pure (return_json (PDict (foldl (copy_prediction_attr created_prediction)
                   [(''message'', PStr ''Prediction created successfully.'')]
                   [''id'', ''task'', ''model_version'', ''score'', ''result'',
                    ''created_at'', ''updated_at''])))))
           (prediction_error env))"

section \<open>The registry\<close>

text \<open>
  The ten functions registered with \<^verbatim>\<open>@mcp.tool()\<close>, each under \<^verbatim>\<open>@require_ls_connection\<close>.
  A call names the tool and carries its arguments, as the hosting runtime binds them.
\<close>

datatype tool_call =
    GetProjects
  | GetProjectDetails int
  | GetProjectConfig int
  | ListProjectTasks int
  | GetTaskData int int
  | GetTaskAnnotations int int
  | CreateProject string string "string option arg" "string option arg" "bool option arg"
      "bool option arg" "bool option arg" "bool option arg" "string option arg"
  | UpdateProjectConfig int string
  | ImportProjectTasks int string
  | CreatePrediction int "pyval list" "string option arg" "pyfloat option arg"

fun tool_name :: "tool_call \<Rightarrow> string" where
  "tool_name GetProjects = ''get_label_studio_projects_tool''"
| "tool_name (GetProjectDetails project_id) = ''get_label_studio_project_details_tool''"
| "tool_name (GetProjectConfig project_id) = ''get_label_studio_project_config_tool''"
| "tool_name (ListProjectTasks project_id) = ''list_label_studio_project_tasks_tool''"
| "tool_name (GetTaskData project_id task_id) = ''get_label_studio_task_data_tool''"
| "tool_name (GetTaskAnnotations project_id task_id) = ''get_label_studio_task_annotations_tool''"
| "tool_name (CreateProject t lc d ei si ssb eea sah c) = ''create_label_studio_project_tool''"
| "tool_name (UpdateProjectConfig project_id cfg) = ''update_label_studio_project_config_tool''"
| "tool_name (ImportProjectTasks project_id path) = ''import_label_studio_project_tasks_tool''"
| "tool_name (CreatePrediction task_id result mv sc) = ''create_label_studio_prediction_tool''"

fun tool_body :: "env \<Rightarrow> tool_call \<Rightarrow> client \<Rightarrow> pyval io" where
  "tool_body env GetProjects ls = get_label_studio_projects_tool ls"
| "tool_body env (GetProjectDetails project_id) ls =
     get_label_studio_project_details_tool ls project_id"
| "tool_body env (GetProjectConfig project_id) ls =
     get_label_studio_project_config_tool ls project_id"
| "tool_body env (ListProjectTasks project_id) ls =
     list_label_studio_project_tasks_tool ls project_id"
| "tool_body env (GetTaskData project_id task_id) ls =
     get_label_studio_task_data_tool ls project_id task_id"
| "tool_body env (GetTaskAnnotations project_id task_id) ls =
     get_label_studio_task_annotations_tool env ls project_id task_id"
| "tool_body env (CreateProject t lc d ei si ssb eea sah c) ls =
     create_label_studio_project_tool env ls t lc d ei si ssb eea sah c"
| "tool_body env (UpdateProjectConfig project_id cfg) ls =
     update_label_studio_project_config_tool env ls project_id cfg"
| "tool_body env (ImportProjectTasks project_id path) ls =
     import_label_studio_project_tasks_tool env ls project_id path"
| "tool_body env (CreatePrediction task_id result mv sc) ls =
     create_label_studio_prediction_tool env ls task_id result mv sc"

definition call_tool :: "env \<Rightarrow> client option \<Rightarrow> tool_call \<Rightarrow> pyval io" where
  "call_tool env ls call = require_ls_connection (tool_name call) (tool_body env call) ls"

section \<open>Entries of the client library and an example session\<close>

text \<open>
  The client library's project and task records carry an \<^verbatim>\<open>id\<close>, and the fields the list
  tools copy are JSON values. \<open>forwarded_kwargs\<close> reads back, from the events of a run, the
  keyword arguments of each remote create call.
\<close>

definition sdk_project :: "pyval \<Rightarrow> bool" where
  "sdk_project p =
     (hasattr p ''id'' \<and> json_serializable (getattr3 p ''id'' PNone) \<and>
      json_serializable (getattr3 p ''title'' (PStr ''N/A'')) \<and>
      json_serializable (getattr3 p ''task_number'' (PInt 0)))"

definition sdk_task :: "pyval \<Rightarrow> bool" where
  "sdk_task t = (hasattr t ''id'' \<and> json_serializable (getattr3 t ''id'' PNone))"

fun forwarded_kwargs :: "event list \<Rightarrow> (string \<times> pyval) list list" where
  "forwarded_kwargs [] = []"
| "forwarded_kwargs (CallProjectsCreate kwargs # evs) = kwargs # forwarded_kwargs evs"
| "forwarded_kwargs (CallPredictionsCreate kwargs # evs) = kwargs # forwarded_kwargs evs"
| "forwarded_kwargs (ev # evs) = forwarded_kwargs evs"

definition example_project :: "int \<Rightarrow> pyval" where
  "example_project n =
     PObj ''Project''
       [(''id'', PInt n), (''title'', PStr ''Reviews''), (''task_number'', PInt 3),
        (''label_config'', PStr ''<View/>''),
        (''created_at'', PDatetime ''2024-05-01T12:00:00+00:00'')]
       (Some [(''id'', PInt n), (''title'', PStr ''Reviews''),
              (''created_at'', PDatetime ''2024-05-01T12:00:00+00:00''),
              (''updated_at'', PDatetime ''2024-05-02T08:30:00+00:00'')])
       None None ''Project''"

definition example_task :: "int \<Rightarrow> pyval" where
  "example_task n =
     PObj ''Task'' [(''id'', PInt n), (''data'', PDict [(''text'', PStr ''hello'')])]
       None None None ''Task''"

definition bare_entry :: "int \<Rightarrow> pyval" where
  "bare_entry n = PObj ''Entry'' [(''id'', PInt n)] None None None ''Entry''"

text \<open>
  A project that was pinned: the full dump of the client library's record holds a second
  datetime, \<^verbatim>\<open>pinned_at\<close>.
\<close>

definition pinned_project :: pyval where
  "pinned_project =
     PObj ''Project''
       [(''id'', PInt 1), (''title'', PStr ''Reviews''),
        (''created_at'', PDatetime ''2024-05-01T12:00:00+00:00''),
        (''pinned_at'', PDatetime ''2024-06-01T09:00:00+00:00'')]
       (Some [(''id'', PInt 1), (''title'', PStr ''Reviews''),
              (''created_at'', PDatetime ''2024-05-01T12:00:00+00:00''),
              (''pinned_at'', PDatetime ''2024-06-01T09:00:00+00:00'')])
       None None ''Project''"

definition keyboard_interrupt :: exn where
  "keyboard_interrupt =
     \<lparr>exn_name = ''KeyboardInterrupt'', exn_bases = [''BaseException''], exn_str = []\<rparr>"

definition api_error :: exn where
  "api_error = \<lparr>exn_name = ''ApiError'', exn_bases = [''Exception''], exn_str = ''status_code: 404''\<rparr>"

definition example_ls :: client where
  "example_ls =
     \<lparr>ls_projects_list = Inr (map (\<lambda>n. example_project (int n)) [1..<102]),
      ls_projects_get = (\<lambda>i. if i = 1 then Inr (example_project 1) else Inl api_error),
      ls_projects_create = (\<lambda>kwargs. Inr (example_project 2)),
      ls_projects_update = (\<lambda>i cfg. Inr (example_project i)),
      ls_projects_import_tasks = (\<lambda>i request. Inr (PDict [(''task_count'', PInt 1)])),
      ls_tasks_list = (\<lambda>i. Inr (map (\<lambda>n. example_task (int n)) [1..<52])),
      ls_tasks_get = (\<lambda>i. if i = 1 then Inr (example_task 1)
                           else if i = 2 then Inr (bare_entry 2) else Inl api_error),
      ls_predictions_create = (\<lambda>kwargs. Inr (bare_entry 1))\<rparr>"

definition tasks_json :: string where
  "tasks_json = ''[{\"data\": {\"text\": \"hello\"}}]''"

definition object_json :: string where
  "object_json = ''{\"not\": \"a list\"}''"

definition example_env :: env where
  "example_env =
     \<lparr>LABEL_STUDIO_URL = ''http://localhost:8080'',
      open_file = (\<lambda>path.
        if path = ''tasks.json'' then Inr tasks_json
        else if path = ''object.json'' then Inr object_json
        else if path = ''broken.json'' then Inr ''{''
        else if path = ''secret.json''
        then Inl \<lparr>exn_name = ''PermissionError'', exn_bases = [''OSError'', ''Exception''],
                  exn_str = ''[Errno 13] Permission denied: '' @ SQ @ path @ SQ\<rparr>
        else Inl \<lparr>exn_name = ''FileNotFoundError'', exn_bases = [''OSError'', ''Exception''],
                  exn_str = ''[Errno 2] No such file or directory: '' @ SQ @ path @ SQ\<rparr>),
      json_load = (\<lambda>content.
        if content = tasks_json
        then Inr (PList [PDict [(''data'', PDict [(''text'', PStr ''hello'')])]])
        else if content = object_json then Inr (PDict [(''not'', PStr ''a list'')])
        else Inl \<lparr>exn_name = ''JSONDecodeError'', exn_bases = [''ValueError'', ''Exception''],
                  exn_str = ''Expecting property name enclosed in double quotes: line 1 column 2 (char 1)''\<rparr>),
      str_other = (\<lambda>v. ''...''),
      format_exc = (\<lambda>e. ''Traceback (most recent call last): ...'')\<rparr>"

text \<open>
  The summary the list tools build for an entry that has an \<^verbatim>\<open>id\<close> (lines 65-69 and
  117-121), as one value.
\<close>

definition project_entry :: "pyval \<Rightarrow> pyval" where
  "project_entry p =
     PDict [(''id'', getattr3 p ''id'' PNone),
            (''title'', getattr3 p ''title'' (PStr ''N/A'')),
            (''task_count'', getattr3 p ''task_number'' (PInt 0))]"

definition task_entry :: "pyval \<Rightarrow> pyval" where
  "task_entry t =
     PDict [(''id'', getattr3 t ''id'' PNone),
            (''data_keys'',
               (case py_getattr t ''data'' of
                  Some (PDict kvs) \<Rightarrow> PList (map (\<lambda>(k, v). PStr k) kvs)
                | _ \<Rightarrow> PList []))]"

section \<open>Properties of \<^verbatim>\<open>json.dumps\<close> and of the two loops\<close>

lemma seq_results_all_Inr:
  "\<forall>r\<in>set rs. \<exists>x. r = Inr x \<Longrightarrow> \<exists>xs. seq_results rs = Inr xs"
  by (induction rs) auto

lemma json_dumps_serializable:
  "json_serializable v \<Longrightarrow> \<exists>s. json_dumps v = Inr s"
proof (induction v)
  case (PList xs)
  then have "\<forall>r\<in>set (map json_dumps xs). \<exists>s. r = Inr s"
    by (auto simp: list_all_iff)
  from seq_results_all_Inr [OF this] show ?case
    by (auto simp: json_array_def)
next
  case (PDict kvs)
  then have "\<forall>r\<in>set (map (\<lambda>(k, r). case r of Inl e \<Rightarrow> Inl e | Inr s \<Rightarrow> Inr (json_string k @ '': '' @ s))
                 (map (map_prod id json_dumps) kvs)). \<exists>s. r = Inr s"
    by (fastforce simp: list_all_iff)
  from seq_results_all_Inr [OF this] show ?case
    by (auto simp: json_object_def)
qed simp_all

lemma project_data_entry:
  "hasattr p ''id'' \<Longrightarrow> project_data p = Inr (project_entry p)"
  by (auto simp: project_data_def attr_def ebind_def hasattr_def project_entry_def getattr3_def)

lemma task_summary_entry:
  "hasattr t ''id'' \<Longrightarrow> task_summary t = Inr (task_entry t)"
  by (auto simp: task_summary_def attr_def ebind_def hasattr_def task_entry_def getattr3_def)

lemma projects_loop_entries:
  "\<forall>p\<in>set ps. hasattr p ''id'' \<Longrightarrow>
   projects_loop ps n acc = Inr (acc @ map project_entry (take (100 - n) ps))"
proof (induction ps arbitrary: n acc)
  case Nil
  then show ?case by simp
next
  case (Cons p ps)
  show ?case
  proof (cases "n \<ge> 100")
    case True
    then show ?thesis by simp
  next
    case False
    then have "100 - n = Suc (100 - (n + 1))"
      by simp
    then have t: "take (100 - n) (p # ps) = p # take (100 - (n + 1)) ps"
      by (simp only: take_Suc_Cons)
    from Cons.prems have "hasattr p ''id''" "\<forall>q\<in>set ps. hasattr q ''id''" by simp_all
    with Cons.IH [of "n + 1" "acc @ [project_entry p]"] False t show ?thesis
      by (simp add: project_data_entry)
  qed
qed

lemma tasks_loop_entries:
  "\<forall>t\<in>set ts. hasattr t ''id'' \<Longrightarrow>
   tasks_loop ts n acc = Inr (acc @ map task_entry (take (50 - n) ts))"
proof (induction ts arbitrary: n acc)
  case Nil
  then show ?case by simp
next
  case (Cons t ts)
  show ?case
  proof (cases "n \<ge> 50")
    case True
    then show ?thesis by simp
  next
    case False
    then have "50 - n = Suc (50 - (n + 1))"
      by simp
    then have tk: "take (50 - n) (t # ts) = t # take (50 - (n + 1)) ts"
      by (simp only: take_Suc_Cons)
    from Cons.prems have "hasattr t ''id''" "\<forall>q\<in>set ts. hasattr q ''id''" by simp_all
    with Cons.IH [of "n + 1" "acc @ [task_entry t]"] False tk show ?thesis
      by (simp add: task_summary_entry)
  qed
qed

lemma projects_loop_bound:
  "projects_loop ps n acc = Inr out \<Longrightarrow> length out \<le> length acc + (100 - n)"
proof (induction ps arbitrary: n acc)
  case Nil
  then show ?case by simp
next
  case (Cons p ps)
  show ?case
  proof (cases "n \<ge> 100")
    case True
    with Cons.prems show ?thesis by simp
  next
    case False
    with Cons.prems obtain d where "projects_loop ps (n + 1) (acc @ [d]) = Inr out"
      by (auto split: sum.splits)
    from Cons.IH [OF this] False show ?thesis by simp
  qed
qed

lemma tasks_loop_bound:
  "tasks_loop ts n acc = Inr out \<Longrightarrow> length out \<le> length acc + (50 - n)"
proof (induction ts arbitrary: n acc)
  case Nil
  then show ?case by simp
next
  case (Cons t ts)
  show ?case
  proof (cases "n \<ge> 50")
    case True
    with Cons.prems show ?thesis by simp
  next
    case False
    with Cons.prems obtain d where "tasks_loop ts (n + 1) (acc @ [d]) = Inr out"
      by (auto split: sum.splits)
    from Cons.IH [OF this] False show ?thesis by simp
  qed
qed

lemma project_entry_serializable:
  "sdk_project p \<Longrightarrow> json_serializable (project_entry p)"
  by (simp add: sdk_project_def project_entry_def)

lemma task_entry_serializable:
  "sdk_task t \<Longrightarrow> json_serializable (task_entry t)"
  by (auto simp: sdk_task_def task_entry_def list_all_iff split: option.splits pyval.splits)

lemma projects_tool_run:
  assumes "ls_projects_list ls = Inr projects" and "\<forall>p\<in>set projects. hasattr p ''id''"
  shows "get_label_studio_projects_tool ls =
           ([CallProjectsList], return_json (PList (map project_entry (take 100 projects))))"
  using assms projects_loop_entries [of projects 0 "[]"]
  by (simp add: get_label_studio_projects_tool_def io_bind_def io_do_def io_pure_def ebind_def)

lemma tasks_tool_run:
  assumes "ls_tasks_list ls project_id = Inr tasks" and "\<forall>t\<in>set tasks. hasattr t ''id''"
  shows "list_label_studio_project_tasks_tool ls project_id =
           ([CallTasksList project_id], return_json (PList (map task_entry (take 50 tasks))))"
  using assms tasks_loop_entries [of tasks 0 "[]"]
  by (simp add: list_label_studio_project_tasks_tool_def io_bind_def io_do_def io_pure_def ebind_def)

section \<open>Properties of the dict updates, the guard and the file reader\<close>

lemma map_of_model_dump_exclude:
  "map_of (model_dump_exclude names dump) k = (if k \<in> set names then None else map_of dump k)"
  by (induction dump) (auto simp: model_dump_exclude_def)

lemma keys_model_dump_exclude:
  "fst ` set (model_dump_exclude names dump) = fst ` set dump - set names"
  by (auto simp: model_dump_exclude_def image_iff)

lemma json_serializable_update:
  "json_serializable (PDict d) \<Longrightarrow> json_serializable v \<Longrightarrow>
   json_serializable (PDict (AList.update k v d))"
  by (induction d) (auto simp: list_all_iff)

lemma fst_require_ls_connection:
  "fst (require_ls_connection func_name func (Some ls)) = fst (func ls)"
  by (auto simp: require_ls_connection_def split: prod.splits sum.splits)

lemma fst_io_except: "fst (io_except m h) = fst m"
  by (auto simp: io_except_def split: prod.splits sum.splits)

lemma fst_io_bind_do_pure: "fst (io_bind (io_do ev r) (\<lambda>x. io_pure (f x))) = [ev]"
  by (auto simp: io_bind_def io_do_def io_pure_def split: prod.splits sum.splits)

lemma require_ls_connection_returns:
  "func ls = (evs, Inr v) \<Longrightarrow> require_ls_connection func_name func (Some ls) = (evs, Inr v)"
  by (simp add: require_ls_connection_def)

lemma task_data_tool_events:
  "fst (get_label_studio_task_data_tool ls project_id task_id) = [CallTasksGet task_id]"
  by (simp add: get_label_studio_task_data_tool_def fst_io_bind_do_pure)

lemma read_tasks_file_events:
  "fst (read_tasks_file env path) = [FileOpen path]"
  by (simp add: read_tasks_file_def fst_io_bind_do_pure)

lemma import_tool_read_failed:
  "read_tasks_file env path = (evs, Inl e) \<Longrightarrow>
   import_label_studio_project_tasks_tool env ls project_id path =
     ([FileOpen path], tasks_file_error env path e)"
  using read_tasks_file_events [of env path]
  by (simp add: import_label_studio_project_tasks_tool_def)

lemma import_tool_read_failed_string:
  "read_tasks_file env path = (evs, Inl e) \<Longrightarrow> tasks_file_error env path e = Inr v \<Longrightarrow>
   call_tool env (Some ls) (ImportProjectTasks project_id path) = ([FileOpen path], Inr v)"
  by (simp add: call_tool_def import_tool_read_failed require_ls_connection_returns)

section \<open>The scan of a JSON text\<close>

lemma scan_plain:
  "\<forall>c\<in>set t. \<not> structural c \<Longrightarrow> foldl scan_step (d, Outside, n) t = (d, Outside, n)"
  by (induction t) (auto simp: structural_def)

lemma digit_char_plain: "k < 10 \<Longrightarrow> \<not> structural (digit_char k)"
proof -
  assume "k < 10"
  then have "(of_char (digit_char k) :: nat) = 48 + k"
    by (simp add: digit_char_def)
  with \<open>k < 10\<close> show ?thesis
    by (auto simp: structural_def)
qed

lemma show_nat_plain: "\<forall>c\<in>set (show_nat k). \<not> structural c"
proof (induction k rule: show_nat.induct)
  case (1 n)
  show ?case
  proof (cases "n < 10")
    case True
    then show ?thesis
      by (subst show_nat.simps) (simp add: digit_char_plain)
  next
    case False
    with 1 show ?thesis
      by (subst show_nat.simps) (simp add: digit_char_plain)
  qed
qed

lemma show_nat_nonempty: "show_nat k \<noteq> []"
  by (subst show_nat.simps) simp

lemma show_int_plain: "\<forall>c\<in>set (show_int i). \<not> structural c"
  using show_nat_plain by (auto simp: show_int_def structural_def)

lemma json_float_plain: "\<forall>c\<in>set (json_float r). \<not> structural c"
proof (cases r)
  case (Finite c cs)
  have "\<not> structural (fchar_char x)" for x
    by (cases x) (simp_all add: structural_def)
  with Finite show ?thesis by auto
qed (simp_all add: structural_def)

lemma hex_digit_in_string: "k < 16 \<Longrightarrow> hex_digit k \<noteq> CHR 0x22 \<and> hex_digit k \<noteq> BSL"
proof -
  assume "k < 16"
  then have "(of_char (hex_digit k) :: nat) = (if k < 10 then 48 + k else 87 + k)"
    by (simp add: hex_digit_def)
  then show ?thesis
    by (auto split: if_splits)
qed

lemma scan_escape_char:
  "foldl scan_step (d, InString, n) (json_escape_char c) = (d, InString, n)"
proof -
  have "(of_char c :: nat) < 256" by simp
  then have "(of_char c :: nat) div 16 < 16" "(of_char c :: nat) mod 16 < 16"
    by arith+
  then show ?thesis
    using hex_digit_in_string
    by (simp add: json_escape_char_def)
qed

lemma scan_escaped: "foldl scan_step (d, InString, n) (concat (map json_escape_char s)) = (d, InString, n)"
  by (induction s) (simp_all add: scan_escape_char)

lemma scan_json_string:
  "foldl scan_step (d, Outside, n) (json_string s) = (d, Outside, n)"
  by (simp add: json_string_def scan_escaped)


lemma scan_join:
  assumes "\<And>s d n. s \<in> set ss \<Longrightarrow> 1 \<le> d \<Longrightarrow> foldl scan_step (d, Outside, n) s = (d, Outside, n)"
    and "1 \<le> d"
  shows "foldl scan_step (d, Outside, n) (join_with '', '' ss) =
           (d, Outside, n + (if d = 1 then length ss - 1 else 0))"
  using assms
proof (induction "'', ''" ss arbitrary: n rule: join_with.induct)
  case 1
  then show ?case by simp
next
  case (2 s)
  then show ?case by simp
next
  case (3 s t ss)
  from 3(2) [of s d n] 3(3)
  have head: "foldl scan_step (d, Outside, n) s = (d, Outside, n)" by simp
  have rest: "foldl scan_step (d, Outside, m) (join_with '', '' (t # ss)) =
           (d, Outside, m + (if d = 1 then length (t # ss) - 1 else 0))" for m
    using 3(1) [of m] 3(2,3) by simp
  from head rest 3(3) show ?case by auto
qed

lemma seq_results_Inr: "seq_results rs = Inr xs \<Longrightarrow> rs = map Inr xs"
  by (induction rs arbitrary: xs) (auto split: sum.splits)

lemma json_array_Inr:
  assumes "json_array (map json_dumps xs) = Inr t"
  shows "\<exists>ss. t = ''['' @ join_with '', '' ss @ '']'' \<and> length ss = length xs \<and>
           (\<forall>s\<in>set ss. \<exists>x\<in>set xs. json_dumps x = Inr s)"
proof -
  from assms obtain ss where seq: "seq_results (map json_dumps xs) = Inr ss"
    and t: "t = ''['' @ join_with '', '' ss @ '']''"
    by (auto simp: json_array_def split: sum.splits)
  from seq_results_Inr [OF seq] have m: "map json_dumps xs = map Inr ss" .
  then have len: "length ss = length xs"
    by (metis length_map)
  have "\<exists>x\<in>set xs. json_dumps x = Inr s" if "s \<in> set ss" for s
  proof -
    from that obtain i where i: "i < length ss" "ss ! i = s"
      by (auto simp: in_set_conv_nth)
    with m len have "json_dumps (xs ! i) = Inr s"
      by (metis nth_map)
    with i len show ?thesis
      by (metis nth_mem)
  qed
  with t len show ?thesis by blast
qed

lemma json_object_Inr:
  assumes "json_object (map (map_prod id json_dumps) kvs) = Inr t"
  shows "\<exists>ss. t = ''{'' @ join_with '', '' ss @ ''}'' \<and>
           (\<forall>s\<in>set ss. \<exists>k v s'. (k, v) \<in> set kvs \<and> json_dumps v = Inr s' \<and>
                           s = json_string k @ '': '' @ s')"
proof -
  let ?item = "\<lambda>(k, r). case r of Inl e \<Rightarrow> Inl e | Inr s \<Rightarrow> Inr (json_string k @ '': '' @ s)"
  let ?items = "map ?item (map (map_prod id json_dumps) kvs)"
  from assms obtain ss where seq: "seq_results ?items = Inr ss"
    and t: "t = ''{'' @ join_with '', '' ss @ ''}''"
    by (auto simp: json_object_def split: sum.splits)
  from seq_results_Inr [OF seq] have m: "?items = map Inr ss" .
  then have len: "length ss = length kvs"
    by (metis length_map)
  have "\<exists>k v s'. (k, v) \<in> set kvs \<and> json_dumps v = Inr s' \<and> s = json_string k @ '': '' @ s'"
    if "s \<in> set ss" for s
  proof -
    from that obtain i where i: "i < length ss" "ss ! i = s"
      by (auto simp: in_set_conv_nth)
    obtain k v where kv: "kvs ! i = (k, v)" by (cases "kvs ! i")
    from i len have item: "?items ! i = Inr s"
      using m by (metis nth_map)
    from i len kv have mem: "(k, v) \<in> set kvs"
      by (metis nth_mem)
    show ?thesis
    proof (cases "json_dumps v")
      case (Inl e)
      with item i len kv show ?thesis by simp
    next
      case (Inr s')
      with item i len kv have "s = json_string k @ '': '' @ s'" by simp
      with Inr mem show ?thesis by blast
    qed
  qed
  with t show ?thesis by blast
qed

lemma json_dumps_balanced:
  "json_dumps v = Inr t \<Longrightarrow> 1 \<le> d \<Longrightarrow> foldl scan_step (d, Outside, n) t = (d, Outside, n)"
proof (induction v arbitrary: t d n)
  case PNone
  then show ?case by auto
next
  case (PBool b)
  then show ?case by auto
next
  case (PInt i)
  then show ?case by (auto simp: scan_plain show_int_plain)
next
  case (PFloat r)
  then show ?case by (auto simp: scan_plain json_float_plain)
next
  case (PStr s)
  then show ?case by (auto simp: scan_json_string)
next
  case (PDatetime x)
  then show ?case by simp
next
  case (PList xs)
  from PList.prems(1) have "json_array (map json_dumps xs) = Inr t" by simp
  from json_array_Inr [OF this] obtain ss where t: "t = ''['' @ join_with '', '' ss @ '']''"
    and each: "\<And>s. s \<in> set ss \<Longrightarrow> \<exists>x\<in>set xs. json_dumps x = Inr s"
    by blast
  have "foldl scan_step (d', Outside, m) s = (d', Outside, m)"
    if "s \<in> set ss" "1 \<le> d'" for s d' m
    using each [OF that(1)] PList.IH that(2) by blast
  then have "foldl scan_step (d + 1, Outside, n) (join_with '', '' ss) =
           (d + 1, Outside, n + (if d + 1 = 1 then length ss - 1 else 0))"
    by (rule scan_join) simp_all
  with PList.prems(2) t show ?case by simp
next
  case (PDict kvs)
  from PDict.prems(1) have "json_object (map (map_prod id json_dumps) kvs) = Inr t" by simp
  from json_object_Inr [OF this] obtain ss where t: "t = ''{'' @ join_with '', '' ss @ ''}''"
    and each: "\<And>s. s \<in> set ss \<Longrightarrow>
           \<exists>k v s'. (k, v) \<in> set kvs \<and> json_dumps v = Inr s' \<and> s = json_string k @ '': '' @ s'"
    by blast
  have "foldl scan_step (d', Outside, m) s = (d', Outside, m)"
    if "s \<in> set ss" "1 \<le> d'" for s d' m
  proof -
    from each [OF that(1)] obtain k v s' where kv: "(k, v) \<in> set kvs"
      and v: "json_dumps v = Inr s'" and s: "s = json_string k @ '': '' @ s'"
      by blast
    from kv have "v \<in> Basic_BNFs.snds (k, v)" by simp
    from PDict.IH [OF kv this v that(2)]
    have "foldl scan_step (d', Outside, m) s' = (d', Outside, m)" .
    with s show ?thesis by (simp add: scan_json_string)
  qed
  then have "foldl scan_step (d + 1, Outside, n) (join_with '', '' ss) =
           (d + 1, Outside, n + (if d + 1 = 1 then length ss - 1 else 0))"
    by (rule scan_join) simp_all
  with PDict.prems(2) t show ?case by simp
next
  case (PObj x1 x2 x3 x4 x5 x6)
  then show ?case by simp
qed

lemma json_dumps_nonempty: "json_dumps v = Inr t \<Longrightarrow> t \<noteq> []"
proof (cases v)
  case (PInt i)
  assume "json_dumps v = Inr t"
  with PInt show ?thesis
    by (auto simp: show_int_def show_nat_nonempty split: if_splits)
next
  case (PFloat r)
  assume "json_dumps v = Inr t"
  with PFloat show ?thesis by (cases r) auto
qed (auto simp: json_array_def json_object_def json_string_def split: sum.splits if_splits)

lemma join_with_nonempty: "ss \<noteq> [] \<Longrightarrow> hd ss \<noteq> [] \<Longrightarrow> join_with sep ss \<noteq> []"
  by (induction sep ss rule: join_with.induct) auto

lemma json_array_length_dumps:
  assumes "json_dumps (PList xs) = Inr t"
  shows "json_array_length t = length xs"
proof -
  from assms have "json_array (map json_dumps xs) = Inr t" by simp
  from json_array_Inr [OF this] obtain ss where t: "t = ''['' @ join_with '', '' ss @ '']''"
    and len: "length ss = length xs"
    and each: "\<And>s. s \<in> set ss \<Longrightarrow> \<exists>x\<in>set xs. json_dumps x = Inr s"
    by blast
  show ?thesis
  proof (cases "ss = []")
    case True
    with t len show ?thesis by (simp add: json_array_length_def)
  next
    case False
    then have "hd ss \<in> set ss" by simp
    from each [OF this] have "hd ss \<noteq> []"
      using json_dumps_nonempty by blast
    with False have "join_with '', '' ss \<noteq> []"
      by (rule join_with_nonempty)
    with t have ne: "t \<noteq> ''[]''"
      by (cases "join_with '', '' ss") auto
    have "foldl scan_step (d', Outside, m) s = (d', Outside, m)"
      if "s \<in> set ss" "1 \<le> d'" for s d' m
      using each [OF that(1)] json_dumps_balanced that(2) by blast
    then have "foldl scan_step (1, Outside, 0) (join_with '', '' ss) =
           (1, Outside, 0 + (if (1::nat) = 1 then length ss - 1 else 0))"
      by (rule scan_join) simp_all
    with t have "foldl scan_step (0, Outside, 0) t = (0, Outside, length ss - 1)"
      by simp
    moreover from False len have "0 < length xs" by auto
    ultimately show ?thesis
      using ne len by (simp add: json_array_length_def)
  qed
qed

section \<open>Project details from a dump of JSON values\<close>

lemma project_details_json_dump:
  assumes "ls_projects_get ls project_id = Inr project"
    and "model_dump_of project = Some dump"
    and "py_getattr project ''created_at'' = Some created_at"
    and "created_at = PNone \<or> created_at = PDatetime stamp"
    and "json_serializable (PDict (model_dump_exclude [''created_at'', ''updated_at''] dump))"
  shows "\<exists>project_data s.
           call_tool env (Some ls) (GetProjectDetails project_id) =
             ([CallProjectsGet project_id], Inr (PStr s)) \<and>
           json_dumps (PDict project_data) = Inr s \<and>
           ''updated_at'' \<notin> fst ` set project_data \<and>
           map_of project_data ''created_at'' =
             Some (if created_at = PNone then PNone else PStr stamp) \<and>
           (\<forall>k. k \<noteq> ''created_at'' \<and> k \<noteq> ''updated_at'' \<longrightarrow>
                map_of project_data k = map_of dump k)"
proof -
  let ?c = "if created_at = PNone then PNone else PStr stamp"
  let ?d = "AList.update ''created_at'' ?c (model_dump_exclude [''created_at'', ''updated_at''] dump)"
  from assms(3,4) have "created_at_isoformat project = Inr ?c"
    by (auto simp: created_at_isoformat_def attr_def ebind_def)
  with assms(1,2) have run: "get_label_studio_project_details_tool ls project_id =
      ([CallProjectsGet project_id], return_json (PDict ?d))"
    by (simp add: get_label_studio_project_details_tool_def project_details_def
        io_bind_def io_do_def io_pure_def ebind_def)
  from assms(5) have "json_serializable (PDict ?d)"
    by (rule json_serializable_update) simp
  then obtain s where s: "json_dumps (PDict ?d) = Inr s"
    using json_dumps_serializable by blast
  with run have out: "call_tool env (Some ls) (GetProjectDetails project_id) =
      ([CallProjectsGet project_id], Inr (PStr s))"
    by (simp add: call_tool_def require_ls_connection_def return_json_def)
  have keys: "''updated_at'' \<notin> fst ` set ?d"
    by (simp add: AList.dom_update keys_model_dump_exclude)
  have created: "map_of ?d ''created_at'' = Some ?c"
    by (simp add: AList.update_conv')
  have rest: "\<forall>k. k \<noteq> ''created_at'' \<and> k \<noteq> ''updated_at'' \<longrightarrow> map_of ?d k = map_of dump k"
    by (simp add: AList.update_conv' map_of_model_dump_exclude)
  from out s keys created rest show ?thesis
    by (intro exI [of _ ?d] exI [of _ s]) simp
qed

section \<open>The claims\<close>

subsection \<open>C1: what \<^verbatim>\<open>create_project\<close> forwards when only the required arguments are given\<close>

text \<open>
  C1, as amended. When the caller supplies only \<^verbatim>\<open>title\<close> and \<^verbatim>\<open>label_config\<close>, the tool
  issues one remote create call whose keyword arguments are \<^verbatim>\<open>title\<close>, \<^verbatim>\<open>label_config\<close> and
  the four boolean flags with the defaults of the signature (\<^verbatim>\<open>show_instruction=False\<close>,
  \<^verbatim>\<open>show_skip_button=True\<close>, \<^verbatim>\<open>enable_empty_annotation=True\<close>,
  \<^verbatim>\<open>show_annotation_history=False\<close>); \<^verbatim>\<open>description\<close>, \<^verbatim>\<open>expert_instruction\<close> and \<^verbatim>\<open>color\<close>,
  whose default is \<^verbatim>\<open>None\<close>, are not sent.
\<close>

theorem create_project_forwards_defaults:
  "fst (call_tool env (Some ls)
      (CreateProject title label_config Omitted Omitted Omitted Omitted Omitted Omitted Omitted)) =
     [CallProjectsCreate
        [(''title'', PStr title), (''label_config'', PStr label_config),
         (''show_instruction'', PBool False), (''show_skip_button'', PBool True),
         (''enable_empty_annotation'', PBool True), (''show_annotation_history'', PBool False)]]"
  by (simp add: call_tool_def fst_require_ls_connection create_label_studio_project_tool_def
      filter_not_none_def create_project_kwargs_def py_opt_str_def py_opt_bool_def
      fst_io_bind_do_pure Let_def)

text \<open>The amended statement at the example session.\<close>

theorem create_project_forwards_defaults_witness:
  "fst (call_tool example_env (Some example_ls)
      (CreateProject ''Reviews'' ''<View/>'' Omitted Omitted Omitted Omitted Omitted Omitted Omitted)) =
     [CallProjectsCreate
        [(''title'', PStr ''Reviews''), (''label_config'', PStr ''<View/>''),
         (''show_instruction'', PBool False), (''show_skip_button'', PBool True),
         (''enable_empty_annotation'', PBool True), (''show_annotation_history'', PBool False)]]"
  by (rule create_project_forwards_defaults)

text \<open>
  C1 as stated fails: with every optional parameter left out, the keys forwarded to the
  remote create call are six, not the two of \<open>{title, label_config}\<close>.
\<close>

theorem create_project_defaults_counterexample:
  "map (map fst) (forwarded_kwargs (fst (call_tool example_env (Some example_ls)
      (CreateProject ''Reviews'' ''<View/>'' Omitted Omitted Omitted Omitted Omitted Omitted Omitted)))) =
     [[''title'', ''label_config'', ''show_instruction'', ''show_skip_button'',
       ''enable_empty_annotation'', ''show_annotation_history'']]
   \<and> set [''title'', ''label_config'', ''show_instruction'', ''show_skip_button'',
       ''enable_empty_annotation'', ''show_annotation_history''] \<noteq> {''title'', ''label_config''}"
proof -
  have sent: "map (map fst) (forwarded_kwargs (fst (call_tool example_env (Some example_ls)
      (CreateProject ''Reviews'' ''<View/>'' Omitted Omitted Omitted Omitted Omitted Omitted Omitted)))) =
     [[''title'', ''label_config'', ''show_instruction'', ''show_skip_button'',
       ''enable_empty_annotation'', ''show_annotation_history'']]"
    by (simp add: call_tool_def fst_require_ls_connection create_label_studio_project_tool_def
        filter_not_none_def create_project_kwargs_def py_opt_str_def py_opt_bool_def
        fst_io_bind_do_pure Let_def)
  have "''show_instruction'' \<in> set [''title'', ''label_config'', ''show_instruction'',
      ''show_skip_button'', ''enable_empty_annotation'', ''show_annotation_history'']"
    by simp
  moreover have "''show_instruction'' \<notin> {''title'', ''label_config''}"
    by simp
  ultimately have "set [''title'', ''label_config'', ''show_instruction'', ''show_skip_button'',
       ''enable_empty_annotation'', ''show_annotation_history''] \<noteq> {''title'', ''label_config''}"
    by metis
  with sent show ?thesis by (rule conjI)
qed

subsection \<open>C2: the unset connection handle\<close>

text \<open>
  C2. With the connection handle unset, the guard returns the fixed sentence whatever
  function it wraps, so each of the ten tools returns it for every argument tuple, and no
  remote call is issued and no file is opened. The handle is unset when the API key is
  missing or empty.
\<close>

theorem unset_handle_returns_sentinel:
  "require_ls_connection func_name func None =
     ([], Inr (PStr ''Error: Label Studio client not available. Please check server logs for initialization errors (e.g., missing 'LABEL_STUDIO_API_KEY', invalid key, or connection issue with 'LABEL_STUDIO_URL').''))
   \<and> call_tool env None call =
     ([], Inr (PStr ''Error: Label Studio client not available. Please check server logs for initialization errors (e.g., missing 'LABEL_STUDIO_API_KEY', invalid key, or connection issue with 'LABEL_STUDIO_URL').''))
   \<and> env_ls url None LabelStudio = None
   \<and> env_ls url (Some []) LabelStudio = None"
  by (simp add: call_tool_def require_ls_connection_def client_not_available_def env_ls_def)

theorem unset_handle_returns_sentinel_witness:
  "call_tool example_env (env_ls ''http://localhost:8080'' None (\<lambda>url key. Inr example_ls))
     (ImportProjectTasks 3 ''tasks.json'') =
     ([], Inr (PStr ''Error: Label Studio client not available. Please check server logs for initialization errors (e.g., missing 'LABEL_STUDIO_API_KEY', invalid key, or connection issue with 'LABEL_STUDIO_URL').''))"
  using unset_handle_returns_sentinel [of "''f''" "\<lambda>c. ([], Inr PNone)" example_env
      "ImportProjectTasks 3 ''tasks.json''" "''http://localhost:8080''" "\<lambda>url key. Inr example_ls"]
  by simp

subsection \<open>C3: an exception of a tool body\<close>

text \<open>
  C3, as amended. When the function the guard wraps raises an instance of \<^verbatim>\<open>Exception\<close>,
  the invocation returns the string \<^verbatim>\<open>Error in function '<name>': [<ErrorKind>] <details>\<close>
  with the exception's class name and message, after the effects the body had. When the
  body returns, its value is the invocation's. An exception that is no instance of
  \<^verbatim>\<open>Exception\<close> (\<^verbatim>\<open>KeyboardInterrupt\<close>, \<^verbatim>\<open>SystemExit\<close>) passes the guard's
  \<^verbatim>\<open>except Exception\<close>, and these are the only exceptions an invocation of a tool raises,
  with the handle set or unset.
\<close>

theorem raised_error_returned_as_string:
  "(func ls = (evs, Inl e) \<longrightarrow> isinstance_exn e ''Exception'' \<longrightarrow>
      require_ls_connection func_name func (Some ls) =
        (evs, Inr (PStr (''Error in function '' @ SQ @ func_name @ SQ @ '': ['' @ exn_name e @
                         ''] '' @ exn_str e))))
   \<and> (tool_body env call ls = (evs, Inl e) \<longrightarrow> isinstance_exn e ''Exception'' \<longrightarrow>
      call_tool env (Some ls) call =
        (evs, Inr (PStr (''Error in function '' @ SQ @ tool_name call @ SQ @ '': ['' @
                         exn_name e @ ''] '' @ exn_str e))))
   \<and> (tool_body env call ls = (evs, Inr v) \<longrightarrow> call_tool env (Some ls) call = (evs, Inr v))
   \<and> (tool_body env call ls = (evs, Inl e) \<longrightarrow> \<not> isinstance_exn e ''Exception'' \<longrightarrow>
      call_tool env (Some ls) call = (evs, Inl e))
   \<and> (snd (call_tool env handle call) = Inl e \<longrightarrow> \<not> isinstance_exn e ''Exception'')"
proof -
  have "\<not> isinstance_exn e ''Exception''" if raised: "snd (call_tool env handle call) = Inl e"
  proof (cases handle)
    case None
    with raised show ?thesis
      by (simp add: call_tool_def require_ls_connection_def)
  next
    case (Some c)
    obtain evs' r where body: "tool_body env call c = (evs', r)"
      by (cases "tool_body env call c")
    with raised Some show ?thesis
      by (cases r) (auto simp: call_tool_def require_ls_connection_def split: if_splits)
  qed
  then show ?thesis
    by (simp add: call_tool_def require_ls_connection_def error_in_function_def)
qed

text \<open>A remote call that answers with an API error.\<close>

theorem raised_error_returned_as_string_witness:
  "call_tool example_env (Some example_ls) (GetProjectConfig 5) =
     ([CallProjectsGet 5],
      Inr (PStr ''Error in function 'get_label_studio_project_config_tool': [ApiError] status_code: 404''))"
proof -
  have body: "tool_body example_env (GetProjectConfig 5) example_ls =
      ([CallProjectsGet 5], Inl api_error)"
    by (simp add: get_label_studio_project_config_tool_def io_bind_def io_do_def example_ls_def)
  have inst: "isinstance_exn api_error ''Exception''"
    by (simp add: isinstance_exn_def api_error_def)
  from raised_error_returned_as_string [of "tool_body example_env (GetProjectConfig 5)"
      example_ls "[CallProjectsGet 5]" api_error "tool_name (GetProjectConfig 5)" example_env
      "GetProjectConfig 5"] body inst
  show ?thesis by (simp add: api_error_def)
qed

text \<open>
  C3 as stated fails: when the remote call is interrupted (\<^verbatim>\<open>KeyboardInterrupt\<close>), the body
  raises and so does the invocation; no string is returned.
\<close>

theorem interrupt_passes_guard_counterexample:
  "tool_body example_env (GetProjectConfig 5)
      (example_ls\<lparr>ls_projects_get := \<lambda>i. Inl keyboard_interrupt\<rparr>) =
     ([CallProjectsGet 5], Inl keyboard_interrupt)
   \<and> call_tool example_env (Some (example_ls\<lparr>ls_projects_get := \<lambda>i. Inl keyboard_interrupt\<rparr>))
        (GetProjectConfig 5) =
     ([CallProjectsGet 5], Inl keyboard_interrupt)"
  by (simp add: call_tool_def require_ls_connection_def get_label_studio_project_config_tool_def
      io_bind_def io_do_def isinstance_exn_def keyboard_interrupt_def)

subsection \<open>C4: the limits of the two list tools\<close>

text \<open>
  C4. For every collection of project records the remote call yields, of any size \<open>n\<close>,
  \<^verbatim>\<open>list_projects\<close> returns the JSON encoding of the summaries of the first 100 entries,
  and the array in the returned text has \<open>min 100 n\<close> elements, so never more than 100;
  for every collection of task records \<^verbatim>\<open>list_project_tasks\<close> returns the JSON encoding of
  the summaries of the first 50, an array of \<open>min 50 n\<close> elements. Whatever the entries
  are, a string the tool returns is the guard's error message or the text of an array of at
  most 100 (50) elements.
\<close>

theorem list_tools_bounded:
  "(ls_projects_list ls = Inr projects \<longrightarrow> (\<forall>p\<in>set projects. sdk_project p) \<longrightarrow>
      (\<exists>s. call_tool env (Some ls) GetProjects = ([CallProjectsList], Inr (PStr s)) \<and>
         json_dumps (PList (map project_entry (take 100 projects))) = Inr s \<and>
         json_array_length s = min 100 (length projects) \<and> json_array_length s \<le> 100))
   \<and> (ls_tasks_list ls project_id = Inr tasks \<longrightarrow> (\<forall>t\<in>set tasks. sdk_task t) \<longrightarrow>
      (\<exists>s. call_tool env (Some ls) (ListProjectTasks project_id) =
           ([CallTasksList project_id], Inr (PStr s)) \<and>
         json_dumps (PList (map task_entry (take 50 tasks))) = Inr s \<and>
         json_array_length s = min 50 (length tasks) \<and> json_array_length s \<le> 50))
   \<and> (ls_projects_list ls = Inr projects \<longrightarrow>
        snd (call_tool env (Some ls) GetProjects) = Inr (PStr out) \<longrightarrow>
        (\<exists>e. out = error_in_function ''get_label_studio_projects_tool'' e) \<or>
        json_array_length out \<le> 100)
   \<and> (ls_tasks_list ls project_id = Inr tasks \<longrightarrow>
        snd (call_tool env (Some ls) (ListProjectTasks project_id)) = Inr (PStr out) \<longrightarrow>
        (\<exists>e. out = error_in_function ''list_label_studio_project_tasks_tool'' e) \<or>
        json_array_length out \<le> 50)"
proof (intro conjI impI)
  assume list: "ls_projects_list ls = Inr projects" and sdk: "\<forall>p\<in>set projects. sdk_project p"
  let ?elems = "map project_entry (take 100 projects)"
  from sdk have ids: "\<forall>p\<in>set projects. hasattr p ''id''"
    by (simp add: sdk_project_def)
  from sdk have "json_serializable (PList ?elems)"
    by (auto simp: list_all_iff project_entry_serializable dest: in_set_takeD)
  then obtain s where s: "json_dumps (PList ?elems) = Inr s"
    using json_dumps_serializable by blast
  from projects_tool_run [OF list ids] s
  have run: "call_tool env (Some ls) GetProjects = ([CallProjectsList], Inr (PStr s))"
    by (simp add: call_tool_def require_ls_connection_def return_json_def)
  from json_array_length_dumps [OF s]
  have len: "json_array_length s = min 100 (length projects)"
    by (simp add: min.commute)
  from run s len
  show "\<exists>s. call_tool env (Some ls) GetProjects = ([CallProjectsList], Inr (PStr s)) \<and>
         json_dumps (PList (map project_entry (take 100 projects))) = Inr s \<and>
         json_array_length s = min 100 (length projects) \<and> json_array_length s \<le> 100"
    by (intro exI [of _ s]) simp
next
  assume list: "ls_tasks_list ls project_id = Inr tasks" and sdk: "\<forall>t\<in>set tasks. sdk_task t"
  let ?elems = "map task_entry (take 50 tasks)"
  from sdk have ids: "\<forall>t\<in>set tasks. hasattr t ''id''"
    by (simp add: sdk_task_def)
  from sdk have "json_serializable (PList ?elems)"
    by (auto simp: list_all_iff task_entry_serializable dest: in_set_takeD)
  then obtain s where s: "json_dumps (PList ?elems) = Inr s"
    using json_dumps_serializable by blast
  from tasks_tool_run [OF list ids] s
  have run: "call_tool env (Some ls) (ListProjectTasks project_id) =
      ([CallTasksList project_id], Inr (PStr s))"
    by (simp add: call_tool_def require_ls_connection_def return_json_def)
  from json_array_length_dumps [OF s]
  have len: "json_array_length s = min 50 (length tasks)"
    by (simp add: min.commute)
  from run s len
  show "\<exists>s. call_tool env (Some ls) (ListProjectTasks project_id) =
           ([CallTasksList project_id], Inr (PStr s)) \<and>
         json_dumps (PList (map task_entry (take 50 tasks))) = Inr s \<and>
         json_array_length s = min 50 (length tasks) \<and> json_array_length s \<le> 50"
    by (intro exI [of _ s]) simp
next
  assume list: "ls_projects_list ls = Inr projects"
    and out: "snd (call_tool env (Some ls) GetProjects) = Inr (PStr out)"
  show "(\<exists>e. out = error_in_function ''get_label_studio_projects_tool'' e) \<or>
        json_array_length out \<le> 100"
  proof (cases "projects_loop projects 0 []")
    case (Inl e)
    with list out show ?thesis
      by (auto simp: call_tool_def require_ls_connection_def get_label_studio_projects_tool_def
          io_bind_def io_do_def io_pure_def ebind_def split: if_splits)
  next
    case (Inr summary)
    from projects_loop_bound [OF this] have bound: "length summary \<le> 100" by simp
    show ?thesis
    proof (cases "json_dumps (PList summary)")
      case (Inl e)
      with Inr list out show ?thesis
        by (auto simp: call_tool_def require_ls_connection_def get_label_studio_projects_tool_def
            io_bind_def io_do_def io_pure_def ebind_def return_json_def split: if_splits)
    next
      case encoded: (Inr s)
      with Inr list out have "out = s"
        by (simp add: call_tool_def require_ls_connection_def get_label_studio_projects_tool_def
            io_bind_def io_do_def io_pure_def ebind_def return_json_def)
      with json_array_length_dumps [OF encoded] bound show ?thesis by simp
    qed
  qed
next
  assume list: "ls_tasks_list ls project_id = Inr tasks"
    and out: "snd (call_tool env (Some ls) (ListProjectTasks project_id)) = Inr (PStr out)"
  show "(\<exists>e. out = error_in_function ''list_label_studio_project_tasks_tool'' e) \<or>
        json_array_length out \<le> 50"
  proof (cases "tasks_loop tasks 0 []")
    case (Inl e)
    with list out show ?thesis
      by (auto simp: call_tool_def require_ls_connection_def
          list_label_studio_project_tasks_tool_def
          io_bind_def io_do_def io_pure_def ebind_def split: if_splits)
  next
    case (Inr summary)
    from tasks_loop_bound [OF this] have bound: "length summary \<le> 50" by simp
    show ?thesis
    proof (cases "json_dumps (PList summary)")
      case (Inl e)
      with Inr list out show ?thesis
        by (auto simp: call_tool_def require_ls_connection_def
            list_label_studio_project_tasks_tool_def
            io_bind_def io_do_def io_pure_def ebind_def return_json_def split: if_splits)
    next
      case encoded: (Inr s)
      with Inr list out have "out = s"
        by (simp add: call_tool_def require_ls_connection_def
            list_label_studio_project_tasks_tool_def
            io_bind_def io_do_def io_pure_def ebind_def return_json_def)
      with json_array_length_dumps [OF encoded] bound show ?thesis by simp
    qed
  qed
qed

text \<open>A remote collection of 101 projects gives 100 elements, one of 51 tasks gives 50.\<close>

theorem list_tools_bounded_witness:
  "(\<exists>s. call_tool example_env (Some example_ls) GetProjects = ([CallProjectsList], Inr (PStr s)) \<and>
         json_array_length s = 100)
   \<and> (\<exists>s. call_tool example_env (Some example_ls) (ListProjectTasks 1) =
           ([CallTasksList 1], Inr (PStr s)) \<and>
         json_array_length s = 50)"
proof -
  have p: "ls_projects_list example_ls = Inr (map (\<lambda>n. example_project (int n)) [1..<102])"
    by (simp add: example_ls_def)
  have ps: "\<forall>p\<in>set (map (\<lambda>n. example_project (int n)) [1..<102]). sdk_project p"
    by (simp add: sdk_project_def example_project_def hasattr_def getattr3_def)
  have t: "ls_tasks_list example_ls 1 = Inr (map (\<lambda>n. example_task (int n)) [1..<52])"
    by (simp add: example_ls_def)
  have ts: "\<forall>t\<in>set (map (\<lambda>n. example_task (int n)) [1..<52]). sdk_task t"
    by (simp add: sdk_task_def example_task_def hasattr_def getattr3_def)
  note bounded = list_tools_bounded [of example_ls "map (\<lambda>n. example_project (int n)) [1..<102]"
      example_env 1 "map (\<lambda>n. example_task (int n)) [1..<52]"]
  from bounded p ps
  have "\<exists>s. call_tool example_env (Some example_ls) GetProjects = ([CallProjectsList], Inr (PStr s)) \<and>
         json_array_length s = min 100 (length (map (\<lambda>n. example_project (int n)) [1..<102]))"
    by blast
  moreover from bounded t ts
  have "\<exists>s. call_tool example_env (Some example_ls) (ListProjectTasks 1) =
           ([CallTasksList 1], Inr (PStr s)) \<and>
         json_array_length s = min 50 (length (map (\<lambda>n. example_task (int n)) [1..<52]))"
    by blast
  ultimately show ?thesis by simp
qed

subsection \<open>C5: a tasks file that cannot be imported\<close>

text \<open>
  C5. When the file parses as JSON and its root is not a list, \<^verbatim>\<open>import_project_tasks\<close>
  returns the string \<^verbatim>\<open>Error processing tasks file: JSON file '<path>' must contain a
  valid JSON array (list).\<close> and its only effect is opening the file: no remote import
  call is issued. The same holds, each with its own string, when \<^verbatim>\<open>open\<close> raises
  \<^verbatim>\<open>FileNotFoundError\<close> or \<^verbatim>\<open>PermissionError\<close> and when the parser raises
  \<^verbatim>\<open>JSONDecodeError\<close>. Whatever the reading raises, the only effect is opening the file,
  and for an instance of \<^verbatim>\<open>Exception\<close> the tool returns a string.
\<close>

theorem import_rejects_bad_file:
  "(open_file env path = Inr content \<longrightarrow> json_load env content = Inr root \<longrightarrow> \<not> is_list root \<longrightarrow>
      call_tool env (Some ls) (ImportProjectTasks project_id path) =
        ([FileOpen path],
         Inr (PStr (''Error processing tasks file: JSON file '' @ SQ @ path @ SQ @
                    '' must contain a valid JSON array (list).''))))
   \<and> (open_file env path = Inl e \<longrightarrow> isinstance_exn e ''FileNotFoundError'' \<longrightarrow>
      call_tool env (Some ls) (ImportProjectTasks project_id path) =
        ([FileOpen path], Inr (PStr (''Error: Tasks file not found at path: '' @ path))))
   \<and> (open_file env path = Inl e \<longrightarrow> isinstance_exn e ''PermissionError'' \<longrightarrow>
      \<not> isinstance_exn e ''FileNotFoundError'' \<longrightarrow>
      call_tool env (Some ls) (ImportProjectTasks project_id path) =
        ([FileOpen path],
         Inr (PStr (''Error: Permission denied when trying to read file: '' @ path))))
   \<and> (open_file env path = Inr content \<longrightarrow> json_load env content = Inl e \<longrightarrow>
      isinstance_exn e ''JSONDecodeError'' \<longrightarrow>
      \<not> isinstance_exn e ''FileNotFoundError'' \<longrightarrow> \<not> isinstance_exn e ''PermissionError'' \<longrightarrow>
      call_tool env (Some ls) (ImportProjectTasks project_id path) =
        ([FileOpen path],
         Inr (PStr (''Error: Invalid JSON format in file '' @ SQ @ path @ SQ @ '' - '' @
                    exn_str e))))
   \<and> (snd (read_tasks_file env path) = Inl e \<longrightarrow>
        fst (call_tool env (Some ls) (ImportProjectTasks project_id path)) = [FileOpen path] \<and>
        (isinstance_exn e ''Exception'' \<longrightarrow>
           (\<exists>message. call_tool env (Some ls) (ImportProjectTasks project_id path) =
              ([FileOpen path], Inr (PStr message)))))"
proof (intro conjI impI)
  assume "open_file env path = Inr content" "json_load env content = Inr root" "\<not> is_list root"
  then have "read_tasks_file env path =
      ([FileOpen path], Inl (ValueError (''JSON file '' @ SQ @ path @ SQ @
                               '' must contain a valid JSON array (list).'')))"
    by (simp add: read_tasks_file_def io_bind_def io_do_def io_pure_def ebind_def)
  then show "call_tool env (Some ls) (ImportProjectTasks project_id path) =
        ([FileOpen path],
         Inr (PStr (''Error processing tasks file: JSON file '' @ SQ @ path @ SQ @
                    '' must contain a valid JSON array (list).'')))"
    by (rule import_tool_read_failed_string)
      (simp add: tasks_file_error_def isinstance_exn_def ValueError_def)
next
  assume o: "open_file env path = Inl e" and k: "isinstance_exn e ''FileNotFoundError''"
  from o have "read_tasks_file env path = ([FileOpen path], Inl e)"
    by (simp add: read_tasks_file_def io_bind_def io_do_def)
  then show "call_tool env (Some ls) (ImportProjectTasks project_id path) =
        ([FileOpen path], Inr (PStr (''Error: Tasks file not found at path: '' @ path)))"
    by (rule import_tool_read_failed_string) (simp add: tasks_file_error_def k)
next
  assume o: "open_file env path = Inl e" and k: "isinstance_exn e ''PermissionError''"
    "\<not> isinstance_exn e ''FileNotFoundError''"
  from o have "read_tasks_file env path = ([FileOpen path], Inl e)"
    by (simp add: read_tasks_file_def io_bind_def io_do_def)
  then show "call_tool env (Some ls) (ImportProjectTasks project_id path) =
        ([FileOpen path],
         Inr (PStr (''Error: Permission denied when trying to read file: '' @ path)))"
    by (rule import_tool_read_failed_string) (simp add: tasks_file_error_def k)
next
  assume o: "open_file env path = Inr content" "json_load env content = Inl e"
    and k: "isinstance_exn e ''JSONDecodeError''"
    "\<not> isinstance_exn e ''FileNotFoundError''" "\<not> isinstance_exn e ''PermissionError''"
  from o have "read_tasks_file env path = ([FileOpen path], Inl e)"
    by (simp add: read_tasks_file_def io_bind_def io_do_def io_pure_def ebind_def)
  then show "call_tool env (Some ls) (ImportProjectTasks project_id path) =
        ([FileOpen path],
         Inr (PStr (''Error: Invalid JSON format in file '' @ SQ @ path @ SQ @ '' - '' @
                    exn_str e)))"
    by (rule import_tool_read_failed_string) (simp add: tasks_file_error_def k)
next
  assume "snd (read_tasks_file env path) = Inl e"
  then have read: "read_tasks_file env path = (fst (read_tasks_file env path), Inl e)"
    by (metis prod.collapse)
  from import_tool_read_failed [OF read]
  show "fst (call_tool env (Some ls) (ImportProjectTasks project_id path)) = [FileOpen path]"
    by (simp add: call_tool_def fst_require_ls_connection)
  assume "isinstance_exn e ''Exception''"
  then have "\<exists>message. tasks_file_error env path e = Inr (PStr message)"
    by (simp add: tasks_file_error_def)
  then obtain message where "tasks_file_error env path e = Inr (PStr message)"
    by blast
  from import_tool_read_failed_string [OF read this]
  show "\<exists>message. call_tool env (Some ls) (ImportProjectTasks project_id path) =
              ([FileOpen path], Inr (PStr message))"
    by blast
qed

text \<open>The four files of the example session that cannot be imported.\<close>

theorem import_rejects_bad_file_witness:
  "call_tool example_env (Some example_ls) (ImportProjectTasks 3 ''object.json'') =
     ([FileOpen ''object.json''],
      Inr (PStr ''Error processing tasks file: JSON file 'object.json' must contain a valid JSON array (list).''))
   \<and> call_tool example_env (Some example_ls) (ImportProjectTasks 3 ''missing.json'') =
     ([FileOpen ''missing.json''], Inr (PStr ''Error: Tasks file not found at path: missing.json''))
   \<and> call_tool example_env (Some example_ls) (ImportProjectTasks 3 ''secret.json'') =
     ([FileOpen ''secret.json''],
      Inr (PStr ''Error: Permission denied when trying to read file: secret.json''))
   \<and> call_tool example_env (Some example_ls) (ImportProjectTasks 3 ''broken.json'') =
     ([FileOpen ''broken.json''],
      Inr (PStr ''Error: Invalid JSON format in file 'broken.json' - Expecting property name enclosed in double quotes: line 1 column 2 (char 1)''))"
proof -
  have o1: "open_file example_env ''object.json'' = Inr object_json"
    and l1: "json_load example_env object_json = Inr (PDict [(''not'', PStr ''a list'')])"
    and n1: "\<not> is_list (PDict [(''not'', PStr ''a list'')])"
    by (simp_all add: example_env_def object_json_def tasks_json_def)
  from import_rejects_bad_file [of example_env "''object.json''" object_json
      "PDict [(''not'', PStr ''a list'')]" example_ls 3] o1 l1 n1
  have r1: "call_tool example_env (Some example_ls) (ImportProjectTasks 3 ''object.json'') =
     ([FileOpen ''object.json''],
      Inr (PStr ''Error processing tasks file: JSON file 'object.json' must contain a valid JSON array (list).''))"
    by simp
  let ?nf = "\<lparr>exn_name = ''FileNotFoundError'', exn_bases = [''OSError'', ''Exception''],
                  exn_str = ''[Errno 2] No such file or directory: '' @ SQ @ ''missing.json'' @ SQ\<rparr>"
  have o2: "open_file example_env ''missing.json'' = Inl ?nf"
    and k2: "isinstance_exn ?nf ''FileNotFoundError''"
    by (simp_all add: example_env_def isinstance_exn_def)
  from import_rejects_bad_file [of example_env "''missing.json''" _ _ example_ls 3 ?nf] o2 k2
  have r2: "call_tool example_env (Some example_ls) (ImportProjectTasks 3 ''missing.json'') =
     ([FileOpen ''missing.json''], Inr (PStr ''Error: Tasks file not found at path: missing.json''))"
    by simp
  let ?pd = "\<lparr>exn_name = ''PermissionError'', exn_bases = [''OSError'', ''Exception''],
                  exn_str = ''[Errno 13] Permission denied: '' @ SQ @ ''secret.json'' @ SQ\<rparr>"
  have o3: "open_file example_env ''secret.json'' = Inl ?pd"
    and k3: "isinstance_exn ?pd ''PermissionError''" "\<not> isinstance_exn ?pd ''FileNotFoundError''"
    by (simp_all add: example_env_def isinstance_exn_def)
  from import_rejects_bad_file [of example_env "''secret.json''" _ _ example_ls 3 ?pd] o3 k3
  have r3: "call_tool example_env (Some example_ls) (ImportProjectTasks 3 ''secret.json'') =
     ([FileOpen ''secret.json''],
      Inr (PStr ''Error: Permission denied when trying to read file: secret.json''))"
    by simp
  let ?jd = "\<lparr>exn_name = ''JSONDecodeError'', exn_bases = [''ValueError'', ''Exception''],
                  exn_str = ''Expecting property name enclosed in double quotes: line 1 column 2 (char 1)''\<rparr>"
  have o4: "open_file example_env ''broken.json'' = Inr ''{''"
    and l4: "json_load example_env ''{'' = Inl ?jd"
    and k4: "isinstance_exn ?jd ''JSONDecodeError''" "\<not> isinstance_exn ?jd ''FileNotFoundError''"
      "\<not> isinstance_exn ?jd ''PermissionError''"
    by (simp_all add: example_env_def isinstance_exn_def object_json_def tasks_json_def)
  from import_rejects_bad_file [of example_env "''broken.json''" "''{''" _ example_ls 3 ?jd]
    o4 l4 k4
  have r4: "call_tool example_env (Some example_ls) (ImportProjectTasks 3 ''broken.json'') =
     ([FileOpen ''broken.json''],
      Inr (PStr ''Error: Invalid JSON format in file 'broken.json' - Expecting property name enclosed in double quotes: line 1 column 2 (char 1)''))"
    by simp
  from r1 r2 r3 r4 show ?thesis by simp
qed

subsection \<open>C6: what \<^verbatim>\<open>create_prediction\<close> forwards\<close>

text \<open>
  C6. For every task id and every result list (empty or not), a call of
  \<^verbatim>\<open>create_prediction\<close> that leaves \<^verbatim>\<open>model_version\<close> and \<^verbatim>\<open>score\<close> unset issues one remote
  prediction-create call whose keyword arguments are exactly \<^verbatim>\<open>task\<close>, the task id, and
  \<^verbatim>\<open>result\<close>, the given list.
\<close>

theorem create_prediction_forwards_task_and_result:
  "fst (call_tool env (Some ls) (CreatePrediction task_id result Omitted Omitted)) =
     [CallPredictionsCreate [(''task'', PInt task_id), (''result'', PList result)]]"
  by (simp add: call_tool_def fst_require_ls_connection create_label_studio_prediction_tool_def
      filter_not_none_def prediction_kwargs_def py_opt_str_def py_opt_float_def
      fst_io_except fst_io_bind_do_pure Let_def)

theorem create_prediction_forwards_task_and_result_witness:
  "fst (call_tool example_env (Some example_ls)
      (CreatePrediction 12
         [PDict [(''from_name'', PStr ''label''), (''to_name'', PStr ''text''),
                 (''type'', PStr ''choices''),
                 (''value'', PDict [(''choices'', PList [PStr ''Positive''])])]]
         Omitted Omitted)) =
     [CallPredictionsCreate
        [(''task'', PInt 12),
         (''result'', PList
            [PDict [(''from_name'', PStr ''label''), (''to_name'', PStr ''text''),
                    (''type'', PStr ''choices''),
                    (''value'', PDict [(''choices'', PList [PStr ''Positive''])])]])]]"
  by (rule create_prediction_forwards_task_and_result)

subsection \<open>C7: a tasks file that holds a JSON array\<close>



subsection \<open>C8: project details from a full dump\<close>

text \<open>
  C8 names a defect. For a project whose dump holds JSON values only, the tool does what
  the claim says (\<open>project_details_json_dump\<close>). The dump of a pinned project holds a second
  datetime, \<^verbatim>\<open>pinned_at\<close>; line 84 calls \<^verbatim>\<open>json.dumps\<close> without the serializer of lines
  41-47, which would turn it into its ISO text, so the call raises \<^verbatim>\<open>TypeError\<close> and the
  tool returns the guard's error message instead of the project's JSON.
\<close>

theorem project_details_second_datetime:
  "call_tool example_env (Some (example_ls\<lparr>ls_projects_get := \<lambda>i. Inr pinned_project\<rparr>))
     (GetProjectDetails 1) =
     ([CallProjectsGet 1],
      Inr (PStr ''Error in function 'get_label_studio_project_details_tool': [TypeError] Object of type datetime is not JSON serializable''))
   \<and> json_datetime_serializer (PDatetime ''2024-06-01T09:00:00+00:00'') =
       Inr (PStr ''2024-06-01T09:00:00+00:00'')"
  by (simp add: call_tool_def require_ls_connection_def get_label_studio_project_details_tool_def
      project_details_def created_at_isoformat_def attr_def pinned_project_def
      model_dump_exclude_def return_json_def json_object_def not_serializable_def TypeError_def
      isinstance_exn_def error_in_function_def json_datetime_serializer_def
      io_bind_def io_do_def io_pure_def ebind_def)

subsection \<open>C9: the data of a task\<close>

text \<open>
  C9. \<^verbatim>\<open>get_task_data\<close> fetches the task by \<^verbatim>\<open>task_id\<close> alone: the invocation is the same
  for every \<^verbatim>\<open>project_id\<close>, and its one remote call is the fetch of that task. When the
  task has a \<^verbatim>\<open>data\<close> attribute the tool returns its JSON encoding, and when it has none
  the tool returns the text \<^verbatim>\<open>{}\<close>.
\<close>

theorem task_data_by_task_id:
  "call_tool env (Some ls) (GetTaskData project_id task_id) =
     call_tool env (Some ls) (GetTaskData project_id' task_id)
   \<and> fst (call_tool env (Some ls) (GetTaskData project_id task_id)) = [CallTasksGet task_id]
   \<and> (ls_tasks_get ls task_id = Inr task \<longrightarrow> py_getattr task ''data'' = Some data \<longrightarrow>
        json_dumps data = Inr s \<longrightarrow>
        call_tool env (Some ls) (GetTaskData project_id task_id) =
          ([CallTasksGet task_id], Inr (PStr s)))
   \<and> (ls_tasks_get ls task_id = Inr task \<longrightarrow> py_getattr task ''data'' = None \<longrightarrow>
        call_tool env (Some ls) (GetTaskData project_id task_id) =
          ([CallTasksGet task_id], Inr (PStr ''{}'')))"
proof (intro conjI impI)
  show "call_tool env (Some ls) (GetTaskData project_id task_id) =
     call_tool env (Some ls) (GetTaskData project_id' task_id)"
    by (simp add: call_tool_def require_ls_connection_def get_label_studio_task_data_tool_def)
  show "fst (call_tool env (Some ls) (GetTaskData project_id task_id)) = [CallTasksGet task_id]"
    by (simp add: call_tool_def fst_require_ls_connection task_data_tool_events)
next
  assume "ls_tasks_get ls task_id = Inr task" "py_getattr task ''data'' = Some data"
    "json_dumps data = Inr s"
  then show "call_tool env (Some ls) (GetTaskData project_id task_id) =
      ([CallTasksGet task_id], Inr (PStr s))"
    by (simp add: call_tool_def require_ls_connection_def get_label_studio_task_data_tool_def
        io_bind_def io_do_def io_pure_def return_json_def)
next
  assume "ls_tasks_get ls task_id = Inr task" "py_getattr task ''data'' = None"
  then show "call_tool env (Some ls) (GetTaskData project_id task_id) =
          ([CallTasksGet task_id], Inr (PStr ''{}''))"
    by (simp add: call_tool_def require_ls_connection_def get_label_studio_task_data_tool_def
        io_bind_def io_do_def io_pure_def return_json_def json_object_def)
qed

theorem task_data_by_task_id_witness:
  "call_tool example_env (Some example_ls) (GetTaskData 7 1) =
     ([CallTasksGet 1], Inr (PStr ''{\"text\": \"hello\"}''))
   \<and> call_tool example_env (Some example_ls) (GetTaskData 7 2) =
     ([CallTasksGet 2], Inr (PStr ''{}''))"
proof -
  have t1: "ls_tasks_get example_ls 1 = Inr (example_task 1)"
    and t2: "ls_tasks_get example_ls 2 = Inr (bare_entry 2)"
    by (simp_all add: example_ls_def)
  have d1: "py_getattr (example_task 1) ''data'' = Some (PDict [(''text'', PStr ''hello'')])"
    by (simp add: example_task_def)
  have d2: "py_getattr (bare_entry 2) ''data'' = None"
    by (simp add: bare_entry_def)
  have j: "json_dumps (PDict [(''text'', PStr ''hello'')]) = Inr ''{\"text\": \"hello\"}''"
    by code_simp
  from task_data_by_task_id [of example_env example_ls 7 1 7 "example_task 1"
      "PDict [(''text'', PStr ''hello'')]" "''{\"text\": \"hello\"}''"] t1 d1 j
  have a: "call_tool example_env (Some example_ls) (GetTaskData 7 1) =
     ([CallTasksGet 1], Inr (PStr ''{\"text\": \"hello\"}''))"
    by blast
  from task_data_by_task_id [of example_env example_ls 7 2 7 "bare_entry 2"] t2 d2
  have b: "call_tool example_env (Some example_ls) (GetTaskData 7 2) =
     ([CallTasksGet 2], Inr (PStr ''{}''))"
    by blast
  from a b show ?thesis by (rule conjI)
qed

subsection \<open>C10: the defaults of a project summary\<close>

text \<open>
  C10. In the array \<^verbatim>\<open>list_projects\<close> encodes, the element for each of the first 100
  entries is a mapping with exactly the keys \<^verbatim>\<open>id\<close>, \<^verbatim>\<open>title\<close>, \<^verbatim>\<open>task_count\<close>, in this
  order; its \<^verbatim>\<open>title\<close> is \<^verbatim>\<open>'N/A'\<close> when the entry has no \<^verbatim>\<open>title\<close> attribute and its
  \<^verbatim>\<open>task_count\<close> is 0 when the entry has no \<^verbatim>\<open>task_number\<close> attribute.
\<close>

theorem projects_summary_defaults:
  assumes "ls_projects_list ls = Inr projects"
    and "\<forall>p\<in>set projects. hasattr p ''id''"
  shows "\<exists>elems.
           get_label_studio_projects_tool ls = ([CallProjectsList], return_json (PList elems)) \<and>
           length elems = min 100 (length projects) \<and>
           (\<forall>i<length elems. \<exists>project_id title task_count.
              elems ! i = PDict [(''id'', project_id), (''title'', title), (''task_count'', task_count)] \<and>
              py_getattr (projects ! i) ''id'' = Some project_id \<and>
              (\<not> hasattr (projects ! i) ''title'' \<longrightarrow> title = PStr ''N/A'') \<and>
              (\<not> hasattr (projects ! i) ''task_number'' \<longrightarrow> task_count = PInt 0))"
proof -
  let ?elems = "map project_entry (take 100 projects)"
  have len: "length ?elems = min 100 (length projects)"
    by (simp add: min.commute)
  have each: "\<exists>project_id title task_count.
              ?elems ! i = PDict [(''id'', project_id), (''title'', title), (''task_count'', task_count)] \<and>
              py_getattr (projects ! i) ''id'' = Some project_id \<and>
              (\<not> hasattr (projects ! i) ''title'' \<longrightarrow> title = PStr ''N/A'') \<and>
              (\<not> hasattr (projects ! i) ''task_number'' \<longrightarrow> task_count = PInt 0)"
    if "i < length ?elems" for i
  proof -
    from that have i: "i < length projects" "i < 100" by simp_all
    then have "projects ! i \<in> set projects" by simp
    with assms(2) have "hasattr (projects ! i) ''id''" by blast
    then obtain project_id where pid: "py_getattr (projects ! i) ''id'' = Some project_id"
      by (auto simp: hasattr_def)
    from i have "?elems ! i = project_entry (projects ! i)" by simp
    with pid show ?thesis
      by (simp add: project_entry_def getattr3_def hasattr_def)
  qed
  from projects_tool_run [OF assms] len each show ?thesis
    by (intro exI [of _ ?elems]) blast
qed

text \<open>An entry with an \<^verbatim>\<open>id\<close> and nothing else, followed by a full project.\<close>

theorem projects_summary_defaults_witness:
  "\<exists>elems. get_label_studio_projects_tool
        (example_ls\<lparr>ls_projects_list := Inr [bare_entry 9, example_project 1]\<rparr>) =
        ([CallProjectsList], return_json (PList elems)) \<and>
      length elems = 2 \<and>
      elems ! 0 = PDict [(''id'', PInt 9), (''title'', PStr ''N/A''), (''task_count'', PInt 0)]"
proof -
  let ?ls = "example_ls\<lparr>ls_projects_list := Inr [bare_entry 9, example_project 1]\<rparr>"
  have a: "ls_projects_list ?ls = Inr [bare_entry 9, example_project 1]"
    by simp
  have b: "\<forall>p\<in>set [bare_entry 9, example_project 1]. hasattr p ''id''"
    by (simp add: hasattr_def bare_entry_def example_project_def)
  from projects_summary_defaults [OF a b]
  obtain elems where run: "get_label_studio_projects_tool ?ls =
        ([CallProjectsList], return_json (PList elems))"
    and len: "length elems = min 100 (length [bare_entry 9, example_project 1])"
    and each: "\<forall>i<length elems. \<exists>project_id title task_count.
              elems ! i = PDict [(''id'', project_id), (''title'', title), (''task_count'', task_count)] \<and>
              py_getattr ([bare_entry 9, example_project 1] ! i) ''id'' = Some project_id \<and>
              (\<not> hasattr ([bare_entry 9, example_project 1] ! i) ''title'' \<longrightarrow> title = PStr ''N/A'') \<and>
              (\<not> hasattr ([bare_entry 9, example_project 1] ! i) ''task_number'' \<longrightarrow> task_count = PInt 0)"
    by blast
  from len have len2: "length elems = 2" by simp
  then have "0 < length elems" by simp
  with each have "\<exists>project_id title task_count.
              elems ! 0 = PDict [(''id'', project_id), (''title'', title), (''task_count'', task_count)] \<and>
              py_getattr ([bare_entry 9, example_project 1] ! 0) ''id'' = Some project_id \<and>
              (\<not> hasattr ([bare_entry 9, example_project 1] ! 0) ''title'' \<longrightarrow> title = PStr ''N/A'') \<and>
              (\<not> hasattr ([bare_entry 9, example_project 1] ! 0) ''task_number'' \<longrightarrow> task_count = PInt 0)"
    by blast
  then have "elems ! 0 = PDict [(''id'', PInt 9), (''title'', PStr ''N/A''), (''task_count'', PInt 0)]"
    by (auto simp: bare_entry_def hasattr_def)
  with run len2 show ?thesis by blast
qed

end
